theory Spec2Isabelle
  imports Main "HOL-Library.AList"
begin

section \<open>JavaScript values used by the real-time manager\<close>

text \<open>
  A field that holds a string in the source can also be \<open>undefined\<close> (a missing
  property, for instance on the empty object that a DELETE notification carries as its
  new record) or \<open>null\<close> (a database NULL). The three cases are kept apart because the
  source tells them apart: \<open>===\<close> is equality of values, \<open>!== undefined\<close> accepts
  \<open>null\<close>, and \<open>||\<close> and \<open>&&\<close> test truthiness, under which the empty string fails
  too.
\<close>

datatype jstr = Undefined | Null | Str string

fun truthy :: "jstr \<Rightarrow> bool" where
  "truthy (Str s) = (s \<noteq> [])"
| "truthy _ = False"

text \<open>\<open>a || b\<close> on such values.\<close>

definition js_or :: "jstr \<Rightarrow> jstr \<Rightarrow> jstr" where
  "js_or a b = (if truthy a then a else b)"

text \<open>The property key that \<open>obj[k]\<close> uses: the key is converted to a string.\<close>

fun js_key :: "jstr \<Rightarrow> string" where
  "js_key Undefined = ''undefined''"
| "js_key Null = ''null''"
| "js_key (Str s) = s"

text \<open>
  \<open>new Set(xs)\<close> adds the elements in order and ignores a value that is already a
  member; spreading the set gives the members in insertion order.
\<close>

definition set_add :: "'a list \<Rightarrow> 'a \<Rightarrow> 'a list" where
  "set_add acc x = (if x \<in> set acc then acc else acc @ [x])"

definition new_Set :: "'a list \<Rightarrow> 'a list" where
  "new_Set xs = foldl set_add [] xs"

text \<open>\<open>books || []\<close>: an array, also an empty one, is truthy.\<close>

definition books_or_empty :: "string list option \<Rightarrow> string list" where
  "books_or_empty b = (case b of None \<Rightarrow> [] | Some xs \<Rightarrow> xs)"

section \<open>Data model\<close>

text \<open>A club as the application state holds it (state.js, \<open>setBookClub\<close>).\<close>

record club =
  c_id :: jstr
  c_name :: jstr
  c_books :: "string list"
  c_currentSelection :: jstr
  c_createdAt :: jstr
  c_userId :: jstr
  c_isOwner :: bool
  c_isShared :: bool

text \<open>
  A row of the \<open>book_clubs\<close> table as a change notification carries it.
  \<open>r_updated_at\<close> is the time value in milliseconds of
  \<open>new Date(record.updated_at)\<close>, \<open>None\<close> when that date is invalid (its time value
  is NaN, and every comparison with it is false). \<open>r_books\<close> and \<open>r_shared_users\<close>
  are \<open>None\<close> when the property is \<open>null\<close> or missing.
\<close>

record remote_record =
  r_id :: jstr
  r_name :: jstr
  r_books :: "string list option"
  r_current_selection :: jstr
  r_created_at :: jstr
  r_updated_at :: "int option"
  r_user_id :: jstr
  r_shared_users :: "string list option"

text \<open>The payload of a change notification; a record is \<open>None\<close> when it is \<open>null\<close>.\<close>

record payload =
  eventType :: string
  new_rec :: "remote_record option"
  old_rec :: "remote_record option"

record conflict =
  conflict_type :: string
  localClub :: club
  remoteRecord :: remote_record
  localOnly :: "string list"
  remoteOnly :: "string list"
  conflictTime :: int

text \<open>A channel handle of the transport: its name and the serial number of its creation.\<close>

record channel =
  ch_name :: string
  ch_serial :: nat

record subscription =
  sub_channel :: channel
  sub_clubId :: string
  sub_subscribedAt :: int
  sub_status :: string

text \<open>The texts of \<open>showRealtimeNotification\<close>, one constructor for each message.\<close>

datatype notice =
    ClubUpdated
  | ClubDeleted
  | ChangesMerged
  | BooksMerged nat
  | SyncUnavailable
  | UnableToReconnect
  | ConnectionRestored
  | WorkingOffline
  | SyncError

text \<open>What the manager asks of its collaborators, in the order of the calls.\<close>

datatype signal =
    Notify notice
  | ConnectionStatus string
  | UpdateBookClubView
  | UpdateBookClubsList
  | SaveToLocalStorage
  | SaveData
  | LoadData
  | ShowHome
  | ChannelSubscribe channel
  | ChannelUnsubscribe channel

text \<open>A pending \<open>setTimeout\<close>: what it will run, and its delay in milliseconds.\<close>

datatype timer =
    ReconnectTimer string nat
  | ShowHomeTimer nat
  | RecoveryTimer nat

datatype error = TypeError

text \<open>
  The singletons of the source in one record: the application state (\<open>bookClubs\<close>,
  \<open>currentClubId\<close>), the user manager's id, whether the transport client is configured,
  the fields of the real-time manager, and the calls it has made to its collaborators.
  \<open>subscriptions\<close> and \<open>presenceChannels\<close> are JavaScript Maps: association lists in
  insertion order. \<open>getCurrentUserId\<close> always returns the stored non-empty id once it
  exists; the model starts from there.
\<close>

record state =
  bookClubs :: "string \<rightharpoonup> club"
  currentClubId :: jstr
  currentUserId :: string
  collaborative :: bool
  subscriptions :: "(string \<times> subscription) list"
  presenceChannels :: "(string \<times> channel) list"
  connectionState :: string
  reconnectAttempts :: nat
  lastUpdate :: "jstr \<rightharpoonup> int"
  conflictResolutionEnabled :: bool
  channelsCreated :: nat
  signals :: "signal list"
  timers :: "timer list"

definition maxReconnectAttempts :: nat where
  "maxReconnectAttempts = 5"

definition reconnectDelay :: nat where
  "reconnectDelay = 1000"

text \<open>The manager as its constructor leaves it, for a user and a transport mode.\<close>

definition initial :: "string \<Rightarrow> bool \<Rightarrow> state" where
  "initial uid collab =
     \<lparr> bookClubs = Map.empty, currentClubId = Null, currentUserId = uid,
       collaborative = collab, subscriptions = [], presenceChannels = [],
       connectionState = ''disconnected'', reconnectAttempts = 0,
       lastUpdate = Map.empty, conflictResolutionEnabled = True,
       channelsCreated = 0, signals = [], timers = [] \<rparr>"

definition emit_signal :: "signal \<Rightarrow> state \<Rightarrow> state" where
  "emit_signal s st = st\<lparr>signals := signals st @ [s]\<rparr>"

definition showRealtimeNotification :: "notice \<Rightarrow> state \<Rightarrow> state" where
  "showRealtimeNotification n st = emit_signal (Notify n) st"

definition setTimeout :: "timer \<Rightarrow> state \<Rightarrow> state" where
  "setTimeout t st = st\<lparr>timers := timers st @ [t]\<rparr>"

section \<open>User manager and application state\<close>

definition isOwner :: "string \<Rightarrow> club \<Rightarrow> bool" where
  "isOwner uid c = (c_userId c = Str uid \<or> c_isOwner c)"

definition isSharedWithUser :: "string \<Rightarrow> club \<Rightarrow> bool" where
  "isSharedWithUser uid c = (c_isShared c \<or> (c_userId c \<noteq> Str uid \<and> truthy (c_userId c)))"

definition hasAccess :: "string \<Rightarrow> club \<Rightarrow> bool" where
  "hasAccess uid c = (isOwner uid c \<or> isSharedWithUser uid c)"

definition getBookClub :: "state \<Rightarrow> jstr \<Rightarrow> club option" where
  "getBookClub st clubId =
     (case bookClubs st (js_key clubId) of
        None \<Rightarrow> None
      | Some c \<Rightarrow> if hasAccess (currentUserId st) c then Some c else None)"

text \<open>
  \<open>setBookClub\<close> stores the club with its ownership fields recomputed. The events it
  emits go to listeners outside the manager and are not modelled.
\<close>

definition setBookClub :: "jstr \<Rightarrow> club \<Rightarrow> state \<Rightarrow> state" where
  "setBookClub clubId clubData st =
     (let userId = currentUserId st;
          enhancedClubData = clubData
            \<lparr> c_userId := js_or (c_userId clubData) (Str userId),
              c_isOwner := (c_userId clubData = Str userId \<or> c_isOwner clubData),
              c_isShared := (c_userId clubData \<noteq> Str userId \<and> c_userId clubData \<noteq> Undefined) \<rparr>
      in st\<lparr>bookClubs := (bookClubs st)(js_key clubId \<mapsto> enhancedClubData)\<rparr>)"

text \<open>
  \<open>removeBookClub\<close> returns whether it removed the club, and the new state. After a
  removal it emits \<open>clubRemoved\<close> and, when the removed club was the current one,
  \<open>setCurrentClubId(null)\<close> emits \<open>currentClubChanged\<close>. As for \<open>setBookClub\<close>, these
  events go to the listeners of the application (which on \<open>currentClubChanged\<close>
  unsubscribes from the old club and shows the home view) and are not modelled: no
  statement below is about what follows a removal that succeeded.
\<close>

definition removeBookClub :: "jstr \<Rightarrow> state \<Rightarrow> bool \<times> state" where
  "removeBookClub clubId st =
     (case bookClubs st (js_key clubId) of
        None \<Rightarrow> (False, st)
      | Some c \<Rightarrow>
          if \<not> isOwner (currentUserId st) c then (False, st)
          else
            let st1 = st\<lparr>bookClubs := (bookClubs st)(js_key clubId := None)\<rparr>;
                st2 = (if currentClubId st1 = clubId then st1\<lparr>currentClubId := Null\<rparr> else st1)
            in (True, st2))"

section \<open>Change dispatcher and conflict resolver\<close>

definition handleClubInsertOrUpdate :: "remote_record option \<Rightarrow> state \<Rightarrow> error + state" where
  "handleClubInsertOrUpdate rec st =
     (case rec of
        None \<Rightarrow> Inl TypeError
      | Some updatedClub \<Rightarrow>
          let userId = currentUserId st;
              has_access = (r_user_id updatedClub = Str userId \<or>
                 (case r_shared_users updatedClub of None \<Rightarrow> False | Some us \<Rightarrow> userId \<in> set us))
          in if \<not> has_access then Inr st
             else
               let clubData =
                     \<lparr> c_id = r_id updatedClub,
                       c_name = r_name updatedClub,
                       c_books = books_or_empty (r_books updatedClub),
                       c_currentSelection = r_current_selection updatedClub,
                       c_createdAt = r_created_at updatedClub,
                       c_userId = r_user_id updatedClub,
                       c_isOwner = (r_user_id updatedClub = Str userId),
                       c_isShared = (r_user_id updatedClub \<noteq> Str userId) \<rparr>;
                   st1 = setBookClub (r_id updatedClub) clubData st;
                   st2 = (if currentClubId st1 = r_id updatedClub
                          then showRealtimeNotification ClubUpdated (emit_signal UpdateBookClubView st1)
                          else emit_signal UpdateBookClubsList st1)
               in Inr (emit_signal SaveToLocalStorage st2))"

definition handleClubDelete :: "remote_record option \<Rightarrow> state \<Rightarrow> error + state" where
  "handleClubDelete rec st =
     (case rec of
        None \<Rightarrow> Inl TypeError
      | Some deletedClub \<Rightarrow>
          let clubId = r_id deletedClub in
          (case getBookClub st clubId of
             None \<Rightarrow> Inr st
           | Some c \<Rightarrow>
               let st1 = snd (removeBookClub clubId st);
                   st2 = emit_signal UpdateBookClubsList st1;
                   st3 = (if currentClubId st2 = clubId
                          then setTimeout (ShowHomeTimer 2000) (showRealtimeNotification ClubDeleted st2)
                          else st2)
               in Inr (emit_signal SaveToLocalStorage st3)))"

definition detectConflict :: "state \<Rightarrow> int \<Rightarrow> payload \<Rightarrow> error + conflict option" where
  "detectConflict st now p =
     (case new_rec p of
        None \<Rightarrow> Inl TypeError
      | Some remote \<Rightarrow>
          (case getBookClub st (r_id remote) of
             None \<Rightarrow> Inr None
           | Some local \<Rightarrow>
               let remoteUpdatedAt = r_updated_at remote;
                   lastLocalUpdate = lastUpdate st (r_id remote)
               in if (case lastLocalUpdate of
                        None \<Rightarrow> False
                      | Some t2 \<Rightarrow> (case remoteUpdatedAt of None \<Rightarrow> False | Some t1 \<Rightarrow> t1 < t2))
                  then Inr (Some \<lparr> conflict_type = ''concurrent_modification'',
                                   localClub = local, remoteRecord = remote,
                                   localOnly = [], remoteOnly = [], conflictTime = now \<rparr>)
                  else
                    let localBooks = new_Set (c_books local);
                        remoteBooks = new_Set (books_or_empty (r_books remote));
                        lo = filter (\<lambda>book. book \<notin> set remoteBooks) localBooks;
                        ro = filter (\<lambda>book. book \<notin> set localBooks) remoteBooks
                    in if length lo > 0 \<and> length ro > 0
                       then Inr (Some \<lparr> conflict_type = ''book_list_conflict'',
                                        localClub = local, remoteRecord = remote,
                                        localOnly = lo, remoteOnly = ro, conflictTime = now \<rparr>)
                       else Inr None))"

text \<open>The club that \<open>resolveConcurrentModification\<close> hands to \<open>setBookClub\<close>.\<close>

definition mergedConcurrent :: "club \<Rightarrow> remote_record \<Rightarrow> club" where
  "mergedConcurrent local remote =
     local\<lparr> c_name := r_name remote,
            c_books := new_Set (c_books local @ books_or_empty (r_books remote)),
            c_currentSelection := js_or (r_current_selection remote) (c_currentSelection local) \<rparr>"

definition resolveConcurrentModification :: "conflict \<Rightarrow> state \<Rightarrow> state" where
  "resolveConcurrentModification cf st =
     (let mergedClub = mergedConcurrent (localClub cf) (remoteRecord cf);
          st1 = setBookClub (c_id (localClub cf)) mergedClub st;
          st2 = showRealtimeNotification ChangesMerged st1
      in emit_signal SaveData st2)"

text \<open>The club that \<open>resolveBookListConflict\<close> hands to \<open>setBookClub\<close>.\<close>

definition mergedBookList :: "club \<Rightarrow> remote_record \<Rightarrow> club" where
  "mergedBookList local remote =
     local\<lparr> c_books := new_Set (c_books local @ books_or_empty (r_books remote)) \<rparr>"

definition resolveBookListConflict :: "conflict \<Rightarrow> state \<Rightarrow> state" where
  "resolveBookListConflict cf st =
     (let mergedClub = mergedBookList (localClub cf) (remoteRecord cf);
          st1 = setBookClub (c_id (localClub cf)) mergedClub st;
          addedCount = length (localOnly cf) + length (remoteOnly cf);
          st2 = showRealtimeNotification (BooksMerged addedCount) st1
      in emit_signal SaveData st2)"

definition resolveConflict :: "conflict \<Rightarrow> state \<Rightarrow> state" where
  "resolveConflict cf st =
     (if conflict_type cf = ''concurrent_modification'' then resolveConcurrentModification cf st
      else if conflict_type cf = ''book_list_conflict'' then resolveBookListConflict cf st
      else st)"

definition handleUpdateError :: "state \<Rightarrow> state" where
  "handleUpdateError st = setTimeout (RecoveryTimer 5000) (showRealtimeNotification SyncError st)"

text \<open>\<open>newRecord?.id || oldRecord?.id\<close>.\<close>

definition record_id :: "payload \<Rightarrow> jstr" where
  "record_id p =
     js_or (case new_rec p of None \<Rightarrow> Undefined | Some r \<Rightarrow> r_id r)
           (case old_rec p of None \<Rightarrow> Undefined | Some r \<Rightarrow> r_id r)"

text \<open>
  The body of the \<open>try\<close> block of \<open>handleBookClubUpdate\<close>; every exception in it is
  thrown before the state has changed, so an error carries no state.
\<close>

definition tryBookClubUpdate :: "state \<Rightarrow> int \<Rightarrow> payload \<Rightarrow> error + state" where
  "tryBookClubUpdate st now p =
     (let userId = currentUserId st in
      if (case new_rec p of None \<Rightarrow> False | Some r \<Rightarrow> r_user_id r = Str userId) then Inr st
      else
        (case (if conflictResolutionEnabled st then detectConflict st now p else Inr None) of
           Inl e \<Rightarrow> Inl e
         | Inr (Some cf) \<Rightarrow> Inr (resolveConflict cf st)
         | Inr None \<Rightarrow>
             (case (if eventType p = ''INSERT'' \<or> eventType p = ''UPDATE''
                    then handleClubInsertOrUpdate (new_rec p) st
                    else if eventType p = ''DELETE'' then handleClubDelete (old_rec p) st
                    else Inr st) of
                Inl e \<Rightarrow> Inl e
              | Inr st1 \<Rightarrow> Inr (st1\<lparr>lastUpdate := (lastUpdate st1)(record_id p \<mapsto> now)\<rparr>))))"

definition handleBookClubUpdate :: "state \<Rightarrow> int \<Rightarrow> payload \<Rightarrow> state" where
  "handleBookClubUpdate st now p =
     (case tryBookClubUpdate st now p of
        Inl e \<Rightarrow> handleUpdateError st
      | Inr st1 \<Rightarrow> st1)"

section \<open>Subscription registry and reconnection supervisor\<close>

text \<open>
  What the collaborators do during one call of the manager: whether creating and
  subscribing a channel throws, whether unsubscribing one throws, and the clubs that
  \<open>storageManager.loadData\<close> passes to \<open>setBookClub\<close>, in order.
\<close>

record transport =
  channel_throws :: bool
  presence_throws :: bool
  unsubscribe_throws :: bool
  presence_unsubscribe_throws :: bool
  loaded :: "(jstr \<times> club) list"

definition has_key :: "('k \<times> 'v) list \<Rightarrow> 'k \<Rightarrow> bool" where
  "has_key m k = (k \<in> fst ` set m)"

definition attemptReconnect :: "string \<Rightarrow> state \<Rightarrow> state" where
  "attemptReconnect clubId st =
     (if reconnectAttempts st \<ge> maxReconnectAttempts
      then showRealtimeNotification UnableToReconnect st
      else
        let st1 = st\<lparr>reconnectAttempts := reconnectAttempts st + 1\<rparr>;
            delay = reconnectDelay * 2 ^ (reconnectAttempts st1 - 1)
        in setTimeout (ReconnectTimer clubId delay) st1)"

definition handleSubscriptionError :: "string \<Rightarrow> state \<Rightarrow> state" where
  "handleSubscriptionError clubId st =
     (let st1 = st\<lparr>subscriptions := AList.delete clubId (subscriptions st)\<rparr>;
          st2 = showRealtimeNotification SyncUnavailable st1
      in attemptReconnect clubId st2)"

definition setupPresenceTracking :: "transport \<Rightarrow> string \<Rightarrow> state \<Rightarrow> state" where
  "setupPresenceTracking io clubId st =
     (if \<not> collaborative st then st
      else if presence_throws io then st
      else
        let presenceChannel = \<lparr> ch_name = ''presence-'' @ clubId, ch_serial = channelsCreated st \<rparr>
        in st\<lparr> channelsCreated := channelsCreated st + 1,
               signals := signals st @ [ChannelSubscribe presenceChannel],
               presenceChannels := AList.update clubId presenceChannel (presenceChannels st) \<rparr>)"

definition cleanupPresenceTracking :: "string \<Rightarrow> state \<Rightarrow> state" where
  "cleanupPresenceTracking clubId st =
     (case map_of (presenceChannels st) clubId of
        None \<Rightarrow> st
      | Some presenceChannel \<Rightarrow>
          st\<lparr> signals := signals st @ [ChannelUnsubscribe presenceChannel],
               presenceChannels := AList.delete clubId (presenceChannels st) \<rparr>)"

definition subscribeToBookClub :: "state \<Rightarrow> int \<Rightarrow> transport \<Rightarrow> string \<Rightarrow> bool \<times> state" where
  "subscribeToBookClub st now io clubId =
     (if \<not> collaborative st then (False, st)
      else if has_key (subscriptions st) clubId then (True, st)
      else if channel_throws io then (False, handleSubscriptionError clubId st)
      else
        let ch = \<lparr> ch_name = ''book-club-'' @ clubId, ch_serial = channelsCreated st \<rparr>;
            st1 = st\<lparr> channelsCreated := channelsCreated st + 1,
                      signals := signals st @ [ChannelSubscribe ch] \<rparr>;
            st2 = st1\<lparr> subscriptions := AList.update clubId
                        \<lparr> sub_channel = ch, sub_clubId = clubId,
                          sub_subscribedAt = now, sub_status = ''connecting'' \<rparr>
                        (subscriptions st1) \<rparr>
        in (True, setupPresenceTracking io clubId st2))"

text \<open>
  \<open>unsubscribeFromBookClub\<close>: an exception of the channel leaves the registry as it
  is; one of the presence channel comes after the registry entry is gone.
\<close>

definition unsubscribeFromBookClub :: "state \<Rightarrow> transport \<Rightarrow> string \<Rightarrow> bool \<times> state" where
  "unsubscribeFromBookClub st io clubId =
     (case map_of (subscriptions st) clubId of
        None \<Rightarrow> (False, st)
      | Some sub \<Rightarrow>
          if unsubscribe_throws io then (False, st)
          else
            let st1 = st\<lparr> signals := signals st @ [ChannelUnsubscribe (sub_channel sub)],
                          subscriptions := AList.delete clubId (subscriptions st) \<rparr>
            in if has_key (presenceChannels st1) clubId \<and> presence_unsubscribe_throws io
               then (False, st1)
               else (True, cleanupPresenceTracking clubId st1))"

definition showConnectionStatus :: "string \<Rightarrow> state \<Rightarrow> state" where
  "showConnectionStatus status st = emit_signal (ConnectionStatus status) st"

definition handleSubscriptionStatus :: "string \<Rightarrow> string \<Rightarrow> state \<Rightarrow> state" where
  "handleSubscriptionStatus clubId status st =
     (let st1 = st\<lparr> subscriptions :=
                  AList.map_entry clubId (\<lambda>sub. sub\<lparr>sub_status := status\<rparr>) (subscriptions st) \<rparr>
      in if status = ''SUBSCRIBED''
         then showConnectionStatus ''connected''
                (st1\<lparr>connectionState := ''connected'', reconnectAttempts := 0\<rparr>)
         else if status = ''CHANNEL_ERROR''
         then handleSubscriptionError clubId (st1\<lparr>connectionState := ''error''\<rparr>)
         else if status = ''TIMED_OUT''
         then attemptReconnect clubId (st1\<lparr>connectionState := ''timeout''\<rparr>)
         else if status = ''CLOSED''
         then st1\<lparr>connectionState := ''disconnected''\<rparr>
         else st1)"

definition loadData :: "transport \<Rightarrow> state \<Rightarrow> state" where
  "loadData io st =
     foldl (\<lambda>s (clubId, c). setBookClub clubId c s) (emit_signal LoadData st) (loaded io)"

text \<open>The loop of \<open>handleConnectionRestored\<close> over the keys of the registry.\<close>

fun resubscribeAll :: "int \<Rightarrow> transport \<Rightarrow> string list \<Rightarrow> state \<Rightarrow> state" where
  "resubscribeAll now io [] st = st"
| "resubscribeAll now io (clubId # rest) st =
     resubscribeAll now io rest (snd (subscribeToBookClub st now io clubId))"

definition handleConnectionRestored :: "state \<Rightarrow> int \<Rightarrow> transport \<Rightarrow> state" where
  "handleConnectionRestored st now io =
     (let st1 = showRealtimeNotification ConnectionRestored st;
          activeClubs = map fst (subscriptions st1);
          st2 = resubscribeAll now io activeClubs st1;
          st3 = loadData io st2
      in emit_signal UpdateBookClubView (emit_signal UpdateBookClubsList st3))"

definition handleConnectionLost :: "state \<Rightarrow> state" where
  "handleConnectionLost st =
     showRealtimeNotification WorkingOffline
       (showConnectionStatus ''offline'' (st\<lparr>connectionState := ''offline''\<rparr>))"

text \<open>
  The \<open>i\<close>-th pending timer fires: it leaves the list and its callback runs. No
  function of the manager removes a timer in any other way.
\<close>

definition fireTimer :: "state \<Rightarrow> int \<Rightarrow> transport \<Rightarrow> nat \<Rightarrow> state" where
  "fireTimer st now io i =
     (if i \<ge> length (timers st) then st
      else
        let st1 = st\<lparr>timers := take i (timers st) @ drop (Suc i) (timers st)\<rparr>
        in (case timers st ! i of
              ReconnectTimer clubId delay \<Rightarrow> snd (subscribeToBookClub st1 now io clubId)
            | ShowHomeTimer delay \<Rightarrow> emit_signal ShowHome st1
            | RecoveryTimer delay \<Rightarrow> emit_signal UpdateBookClubView (loadData io st1)))"

text \<open>
  The callbacks that reach the manager, each run to completion before the next: calls
  of the application, status callbacks of a channel, change notifications, timers and
  the browser's connectivity events.
\<close>

datatype action =
    Subscribe string
  | Unsubscribe string
  | Status string string
  | Change payload
  | Fire nat
  | Online
  | Offline

fun step :: "state \<Rightarrow> (int \<times> transport \<times> action) \<Rightarrow> state" where
  "step st (now, io, Subscribe clubId) = snd (subscribeToBookClub st now io clubId)"
| "step st (now, io, Unsubscribe clubId) = snd (unsubscribeFromBookClub st io clubId)"
| "step st (now, io, Status clubId status) = handleSubscriptionStatus clubId status st"
| "step st (now, io, Change p) = handleBookClubUpdate st now p"
| "step st (now, io, Fire i) = fireTimer st now io i"
| "step st (now, io, Online) = handleConnectionRestored st now io"
| "step st (now, io, Offline) = handleConnectionLost st"

definition run :: "state \<Rightarrow> (int \<times> transport \<times> action) list \<Rightarrow> state" where
  "run st evs = foldl step st evs"

section \<open>The merge as the specification words it\<close>

text \<open>
  Removing duplicates by value, the first occurrence of each value kept in place
  (\<open>remdups\<close> keeps the last one, hence the two reversals).
\<close>

definition dedup :: "'a list \<Rightarrow> 'a list" where
  "dedup xs = rev (remdups (rev xs))"

text \<open>
  The union of two item lists: the local items first in their original order, then the
  items that only the remote list has, in remote order, duplicates removed by value.
\<close>

definition spec_union :: "'a list \<Rightarrow> 'a list \<Rightarrow> 'a list" where
  "spec_union local remote = dedup local @ dedup (filter (\<lambda>x. x \<notin> set local) remote)"

section \<open>Example data\<close>

text \<open>
  The local user is \<open>u1\<close>. Club \<open>X\<close> belongs to \<open>u2\<close> and is shared with \<open>u1\<close>; the
  local copy holds the items A and B, the remote row B and C.
\<close>

definition club_AB :: club where
  "club_AB = \<lparr> c_id = Str ''X'', c_name = Str ''Local name'', c_books = [''A'', ''B''],
               c_currentSelection = Null, c_createdAt = Str ''2024-01-01'',
               c_userId = Str ''u2'', c_isOwner = False, c_isShared = True \<rparr>"

definition remote_BC :: remote_record where
  "remote_BC = \<lparr> r_id = Str ''X'', r_name = Str ''Remote name'', r_books = Some [''B'', ''C''],
                 r_current_selection = Null, r_created_at = Str ''2024-02-02'',
                 r_updated_at = Some 100, r_user_id = Str ''u2'',
                 r_shared_users = Some [''u1''] \<rparr>"

definition update_BC :: payload where
  "update_BC = \<lparr> eventType = ''UPDATE'', new_rec = Some remote_BC, old_rec = None \<rparr>"

definition store_X :: state where
  "store_X = (initial ''u1'' True)\<lparr> bookClubs := [''X'' \<mapsto> club_AB] \<rparr>"

text \<open>The same store after a change of club \<open>X\<close> was applied at time 200.\<close>

definition store_X_synced :: state where
  "store_X_synced = store_X\<lparr> lastUpdate := [Str ''X'' \<mapsto> 200] \<rparr>"

text \<open>The echo of a write of the local user \<open>u1\<close>.\<close>

definition echo_u1 :: payload where
  "echo_u1 = \<lparr> eventType = ''UPDATE'',
                new_rec = Some (remote_BC\<lparr> r_user_id := Str ''u1'' \<rparr>), old_rec = None \<rparr>"

text \<open>The conflict that \<open>detectConflict\<close> reports for that row once the store is synced.\<close>

definition conflict_X :: conflict where
  "conflict_X = \<lparr> conflict_type = ''concurrent_modification'', localClub = club_AB,
                  remoteRecord = remote_BC, localOnly = [], remoteOnly = [],
                  conflictTime = 300 \<rparr>"

definition merged_ABC :: club where
  "merged_ABC = club_AB\<lparr> c_name := Str ''Remote name'', c_books := [''A'', ''B'', ''C''] \<rparr>"

text \<open>
  Without a synced time the same row is an item-list conflict; the second row is not
  shared with the local user, and the last notification is a DELETE that carries the row.
\<close>

definition conflict_X_books :: conflict where
  "conflict_X_books = \<lparr> conflict_type = ''book_list_conflict'', localClub = club_AB,
                        remoteRecord = remote_BC, localOnly = [''A''], remoteOnly = [''C''],
                        conflictTime = 300 \<rparr>"

definition remote_BC_private :: remote_record where
  "remote_BC_private = remote_BC\<lparr> r_shared_users := None \<rparr>"

definition update_BC_private :: payload where
  "update_BC_private = \<lparr> eventType = ''UPDATE'', new_rec = Some remote_BC_private, old_rec = None \<rparr>"

definition conflict_X_private :: conflict where
  "conflict_X_private = conflict_X_books\<lparr> remoteRecord := remote_BC_private \<rparr>"

definition delete_BC :: payload where
  "delete_BC = \<lparr> eventType = ''DELETE'', new_rec = Some remote_BC, old_rec = Some remote_BC \<rparr>"

text \<open>A remote row whose item list repeats a value.\<close>

definition update_AAB :: payload where
  "update_AAB = \<lparr> eventType = ''UPDATE'',
                   new_rec = Some (remote_BC\<lparr> r_books := Some [''A'', ''A'', ''B''] \<rparr>),
                   old_rec = None \<rparr>"

text \<open>
  A DELETE notification as the transport delivers it: the new record is the empty
  object, the old record carries the primary key.
\<close>

definition empty_record :: remote_record where
  "empty_record = \<lparr> r_id = Undefined, r_name = Undefined, r_books = None,
                    r_current_selection = Undefined, r_created_at = Undefined,
                    r_updated_at = None, r_user_id = Undefined, r_shared_users = None \<rparr>"

definition delete_X :: payload where
  "delete_X = \<lparr> eventType = ''DELETE'', new_rec = Some empty_record,
                 old_rec = Some (empty_record\<lparr> r_id := Str ''X'' \<rparr>) \<rparr>"

text \<open>The user is viewing club \<open>X\<close>.\<close>

definition store_X_focused :: state where
  "store_X_focused = store_X\<lparr> currentClubId := Str ''X'' \<rparr>"

text \<open>A transport on which no call throws and a load that brings no club.\<close>

definition io_ok :: transport where
  "io_ok = \<lparr> channel_throws = False, presence_throws = False, unsubscribe_throws = False,
             presence_unsubscribe_throws = False, loaded = [] \<rparr>"

text \<open>The manager after the application has subscribed to the clubs \<open>X\<close> and \<open>Y\<close>.\<close>

definition st_XY :: state where
  "st_XY = run (initial ''u1'' True) [(0, io_ok, Subscribe ''X''), (0, io_ok, Subscribe ''Y'')]"

text \<open>The subscription of club \<open>X\<close> has timed out once, then five times.\<close>

definition st_X_timed_out :: state where
  "st_X_timed_out = run (initial ''u1'' True)
      [(0, io_ok, Subscribe ''X''), (10, io_ok, Status ''X'' ''TIMED_OUT'')]"

definition st_X_exhausted :: state where
  "st_X_exhausted = run (initial ''u1'' True)
      [(0, io_ok, Subscribe ''X''),
       (10, io_ok, Status ''X'' ''TIMED_OUT''), (20, io_ok, Status ''X'' ''TIMED_OUT''),
       (30, io_ok, Status ''X'' ''TIMED_OUT''), (40, io_ok, Status ''X'' ''TIMED_OUT''),
       (50, io_ok, Status ''X'' ''TIMED_OUT'')]"

section \<open>Auxiliary notions\<close>

text \<open>The status callbacks of a list of clubs and statuses, delivered in order.\<close>

definition deliver_statuses :: "(string \<times> string) list \<Rightarrow> state \<Rightarrow> state" where
  "deliver_statuses cfs st =
     foldl (\<lambda>s (clubId, status). handleSubscriptionStatus clubId status s) st cfs"


section \<open>Properties of the merge\<close>

lemma new_Set_snoc: "new_Set (xs @ [x]) = set_add (new_Set xs) x"
  by (simp add: new_Set_def)

lemma dedup_snoc: "dedup (xs @ [x]) = (if x \<in> set xs then dedup xs else dedup xs @ [x])"
  by (simp add: dedup_def)

lemma set_dedup: "set (dedup xs) = set xs"
  by (simp add: dedup_def)

lemma distinct_dedup: "distinct (dedup xs)"
  by (simp add: dedup_def)

lemma new_Set_dedup: "new_Set xs = dedup xs"
proof (induction xs rule: rev_induct)
  case Nil
  show ?case by (simp add: new_Set_def dedup_def)
next
  case (snoc x xs)
  then show ?case by (simp add: new_Set_snoc dedup_snoc set_add_def set_dedup)
qed

lemma set_new_Set: "set (new_Set xs) = set xs"
  by (simp add: new_Set_dedup set_dedup)

lemma distinct_new_Set: "distinct (new_Set xs)"
  by (simp add: new_Set_dedup distinct_dedup)

lemma dedup_append: "dedup (l @ r) = dedup l @ dedup (filter (\<lambda>x. x \<notin> set l) r)"
proof (induction r rule: rev_induct)
  case Nil
  show ?case by (simp add: dedup_def)
next
  case (snoc x r)
  have "dedup (l @ r @ [x]) = (if x \<in> set (l @ r) then dedup (l @ r) else dedup (l @ r) @ [x])"
    using dedup_snoc [of "l @ r" x] by simp
  with snoc show ?case by (auto simp: dedup_snoc)
qed

lemma new_Set_union: "new_Set (l @ r) = spec_union l r"
  by (simp add: new_Set_dedup dedup_append spec_union_def)

lemma dedup_distinct: "distinct xs \<Longrightarrow> dedup xs = xs"
  by (simp add: dedup_def distinct_remdups_id)

lemma new_Set_idem: "new_Set (new_Set (l @ r) @ r) = new_Set (l @ r)"
proof -
  have "filter (\<lambda>x. x \<notin> set (dedup (l @ r))) r = []"
    by (auto simp: set_dedup filter_empty_conv)
  then show ?thesis
    by (simp add: new_Set_dedup dedup_append [of "dedup (l @ r)" r] dedup_distinct
        distinct_dedup dedup_def [of "[]"])
qed

section \<open>Change dispatcher\<close>

text \<open>
  C1. For a notification whose new record names a club that the application state
  returns, \<open>detectConflict\<close> reports a conflict of type \<open>concurrent_modification\<close>
  exactly when the last-update map holds a time for the club's id that is strictly later
  than the record's \<open>updated_at\<close>. With no such time, with \<open>updated_at\<close> at or after
  it, or with an invalid date, no conflict of that type is reported.
\<close>

theorem watermark_conflict_detection:
  assumes "new_rec p = Some r" and "getBookClub st (r_id r) = Some local"
  shows "(\<exists>c. detectConflict st now p = Inr (Some c) \<and> conflict_type c = ''concurrent_modification'')
         \<longleftrightarrow> (\<exists>t1 t2. r_updated_at r = Some t1 \<and> lastUpdate st (r_id r) = Some t2 \<and> t1 < t2)"
  using assms by (auto simp: detectConflict_def Let_def split: option.splits)

theorem watermark_conflict_detection_witness:
  "new_rec update_BC = Some remote_BC \<and>
   getBookClub store_X_synced (r_id remote_BC) = Some club_AB \<and>
   (\<exists>c. detectConflict store_X_synced 300 update_BC = Inr (Some c)
        \<and> conflict_type c = ''concurrent_modification'')"
proof -
  have h1: "new_rec update_BC = Some remote_BC"
    by (simp add: update_BC_def)
  have h2: "getBookClub store_X_synced (r_id remote_BC) = Some club_AB"
    by (simp add: getBookClub_def store_X_synced_def store_X_def initial_def remote_BC_def
        club_AB_def hasAccess_def isOwner_def isSharedWithUser_def)
  have h3: "\<exists>t1 t2. r_updated_at remote_BC = Some t1
              \<and> lastUpdate store_X_synced (r_id remote_BC) = Some t2 \<and> t1 < t2"
    by (simp add: remote_BC_def store_X_synced_def)
  show ?thesis
    using watermark_conflict_detection [OF h1 h2, of 300] h1 h2 h3 by blast
qed

text \<open>
  C4. A notification whose new record carries the local user's id as \<open>user_id\<close> leaves
  the whole state as it was: no club is written, nothing is merged, no time is recorded
  and nothing is signalled.
\<close>

theorem self_echo_suppressed:
  assumes "new_rec p = Some r" and "r_user_id r = Str (currentUserId st)"
  shows "handleBookClubUpdate st now p = st"
  using assms by (simp add: handleBookClubUpdate_def tryBookClubUpdate_def)

theorem self_echo_suppressed_witness:
  "new_rec echo_u1 = Some (remote_BC\<lparr> r_user_id := Str ''u1'' \<rparr>) \<and>
   r_user_id (remote_BC\<lparr> r_user_id := Str ''u1'' \<rparr>) = Str (currentUserId store_X) \<and>
   bookClubs (handleBookClubUpdate store_X 300 echo_u1) = [''X'' \<mapsto> club_AB]"
proof -
  have h1: "new_rec echo_u1 = Some (remote_BC\<lparr> r_user_id := Str ''u1'' \<rparr>)"
    by (simp add: echo_u1_def)
  have h2: "r_user_id (remote_BC\<lparr> r_user_id := Str ''u1'' \<rparr>) = Str (currentUserId store_X)"
    by (simp add: store_X_def initial_def)
  have "bookClubs store_X = [''X'' \<mapsto> club_AB]"
    by (simp add: store_X_def)
  then show ?thesis
    using self_echo_suppressed [OF h1 h2, of 300] h1 h2 by simp
qed

section \<open>Conflict resolver\<close>

lemmas dispatcher_defs = handleBookClubUpdate_def tryBookClubUpdate_def detectConflict_def
  getBookClub_def hasAccess_def isOwner_def isSharedWithUser_def resolveConflict_def
  resolveConcurrentModification_def resolveBookListConflict_def mergedConcurrent_def
  mergedBookList_def setBookClub_def showRealtimeNotification_def emit_signal_def
  handleClubInsertOrUpdate_def handleClubDelete_def removeBookClub_def setTimeout_def
  record_id_def js_or_def books_or_empty_def new_Set_def set_add_def handleUpdateError_def

lemma detectConflict_SomeD:
  assumes "detectConflict st now p = Inr (Some cf)"
  shows "new_rec p = Some (remoteRecord cf)
       \<and> getBookClub st (r_id (remoteRecord cf)) = Some (localClub cf)
       \<and> (conflict_type cf = ''concurrent_modification'' \<or> conflict_type cf = ''book_list_conflict'')"
  using assms
  by (auto simp: detectConflict_def Let_def split: option.splits if_splits)

lemma getBookClub_SomeD: "getBookClub st k = Some c \<Longrightarrow> bookClubs st (js_key k) = Some c"
  by (auto simp: getBookClub_def split: option.splits if_splits)

lemma resolveConflict_store:
  assumes "conflict_type cf = ''concurrent_modification'' \<or> conflict_type cf = ''book_list_conflict''"
  shows "\<exists>m. bookClubs (resolveConflict cf st) = (bookClubs st)(js_key (c_id (localClub cf)) \<mapsto> m)
           \<and> c_books m = new_Set (c_books (localClub cf) @ books_or_empty (r_books (remoteRecord cf)))
           \<and> c_id m = c_id (localClub cf)"
  using assms
  by (auto simp: resolveConflict_def resolveConcurrentModification_def resolveBookListConflict_def
      mergedConcurrent_def mergedBookList_def setBookClub_def showRealtimeNotification_def
      emit_signal_def Let_def)

lemma resolveConflict_frame:
  "conflictResolutionEnabled (resolveConflict cf st) = conflictResolutionEnabled st"
  by (simp add: resolveConflict_def resolveConcurrentModification_def resolveBookListConflict_def
      setBookClub_def showRealtimeNotification_def emit_signal_def Let_def)

text \<open>
  A notification that is detected as a conflict, resolved, and detected as a conflict
  again at its second delivery: the second resolution writes the item list that the
  first one wrote. The club that the first resolution wrote is either the one the
  second detection reads (then the union with the same remote list adds nothing), or it
  went to another key and the second resolution repeats the first.
\<close>

lemma redelivered_conflict_books:
  assumes d1: "detectConflict st now p = Inr (Some cf)"
      and d2: "detectConflict (resolveConflict cf st) now' p = Inr (Some cf')"
  shows "map_option c_books (bookClubs (resolveConflict cf' (resolveConflict cf st)) k)
       = map_option c_books (bookClubs (resolveConflict cf st) k)"
proof -
  let ?st1 = "resolveConflict cf st"
  let ?r = "remoteRecord cf"
  let ?rb = "books_or_empty (r_books ?r)"
  let ?K = "js_key (r_id ?r)"
  let ?K' = "js_key (c_id (localClub cf))"
  from detectConflict_SomeD [OF d1]
  have p1: "new_rec p = Some ?r" and g1: "getBookClub st (r_id ?r) = Some (localClub cf)"
    and t1: "conflict_type cf = ''concurrent_modification'' \<or> conflict_type cf = ''book_list_conflict''"
    by simp_all
  from detectConflict_SomeD [OF d2] p1
  have r2: "remoteRecord cf' = ?r" and g2: "getBookClub ?st1 (r_id ?r) = Some (localClub cf')"
    and t2: "conflict_type cf' = ''concurrent_modification'' \<or> conflict_type cf' = ''book_list_conflict''"
    by auto
  from resolveConflict_store [OF t1, of st] obtain m where
    s1: "bookClubs ?st1 = (bookClubs st)(?K' \<mapsto> m)"
    and bm: "c_books m = new_Set (c_books (localClub cf) @ ?rb)"
    and im: "c_id m = c_id (localClub cf)"
    by blast
  from resolveConflict_store [OF t2, of ?st1] r2 obtain m' where
    s2: "bookClubs (resolveConflict cf' ?st1) = (bookClubs ?st1)(js_key (c_id (localClub cf')) \<mapsto> m')"
    and bm': "c_books m' = new_Set (c_books (localClub cf') @ ?rb)"
    by auto
  have l1: "bookClubs st ?K = Some (localClub cf)"
    using getBookClub_SomeD [OF g1] .
  have l2: "bookClubs ?st1 ?K = Some (localClub cf')"
    using getBookClub_SomeD [OF g2] .
  have key: "js_key (c_id (localClub cf')) = ?K' \<and> c_books m' = c_books m"
  proof (cases "?K = ?K'")
    case True
    with l2 s1 have "localClub cf' = m" by simp
    with im bm bm' show ?thesis by (simp add: new_Set_idem)
  next
    case False
    with l1 l2 s1 have "localClub cf' = localClub cf" by simp
    with bm bm' show ?thesis by simp
  qed
  show ?thesis
    using s1 s2 key by simp
qed

lemma handleBookClubUpdate_conflict:
  assumes "conflictResolutionEnabled st" and "detectConflict st now p = Inr (Some cf)"
  shows "handleBookClubUpdate st now p = st \<or> handleBookClubUpdate st now p = resolveConflict cf st"
  using assms by (simp add: handleBookClubUpdate_def tryBookClubUpdate_def)

lemma redelivered_update_books:
  assumes en: "conflictResolutionEnabled st"
      and d1: "detectConflict st now p = Inr (Some cf)"
      and d2: "detectConflict (handleBookClubUpdate st now p) now' p = Inr (Some cf')"
  shows "map_option c_books (bookClubs (handleBookClubUpdate (handleBookClubUpdate st now p) now' p) k)
       = map_option c_books (bookClubs (handleBookClubUpdate st now p) k)"
proof -
  let ?st1 = "handleBookClubUpdate st now p"
  show ?thesis
  proof (cases "case new_rec p of None \<Rightarrow> False | Some r \<Rightarrow> r_user_id r = Str (currentUserId st)")
    case True
    then have "?st1 = st" and "handleBookClubUpdate st now' p = st"
      by (simp_all add: handleBookClubUpdate_def tryBookClubUpdate_def)
    then show ?thesis by simp
  next
    case False
    with en d1 have e1: "?st1 = resolveConflict cf st"
      by (simp add: handleBookClubUpdate_def tryBookClubUpdate_def)
    then have en1: "conflictResolutionEnabled ?st1"
      using en by (simp add: resolveConflict_frame)
    from handleBookClubUpdate_conflict [OF en1 d2]
    show ?thesis
    proof
      assume "handleBookClubUpdate ?st1 now' p = ?st1"
      then show ?thesis by simp
    next
      assume e2: "handleBookClubUpdate ?st1 now' p = resolveConflict cf' ?st1"
      from d2 e1 have "detectConflict (resolveConflict cf st) now' p = Inr (Some cf')" by simp
      from redelivered_conflict_books [OF d1 this, of k] e1 e2 show ?thesis by simp
    qed
  qed
qed

text \<open>
  What a second delivery finds after a resolution: the merged club is readable, the
  last-update map is the same, so a concurrent modification is detected again; an
  item-list conflict is not, when the merge went to the key of the remote id.
\<close>

lemma resolveConflict_written:
  assumes "conflict_type cf = ''concurrent_modification'' \<or> conflict_type cf = ''book_list_conflict''"
      and "hasAccess (currentUserId st) (localClub cf)"
  shows "\<exists>m. bookClubs (resolveConflict cf st) = (bookClubs st)(js_key (c_id (localClub cf)) \<mapsto> m)
           \<and> c_books m = new_Set (c_books (localClub cf) @ books_or_empty (r_books (remoteRecord cf)))
           \<and> c_id m = c_id (localClub cf)
           \<and> hasAccess (currentUserId st) m"
  using assms
  by (auto simp: resolveConflict_def resolveConcurrentModification_def resolveBookListConflict_def
      mergedConcurrent_def mergedBookList_def setBookClub_def showRealtimeNotification_def
      emit_signal_def Let_def hasAccess_def isOwner_def isSharedWithUser_def js_or_def)

lemma resolveConflict_unchanged:
  "currentUserId (resolveConflict cf st) = currentUserId st"
  "lastUpdate (resolveConflict cf st) = lastUpdate st"
  by (simp_all add: resolveConflict_def resolveConcurrentModification_def resolveBookListConflict_def
      setBookClub_def showRealtimeNotification_def emit_signal_def Let_def)

lemma getBookClub_access:
  "getBookClub st k = Some c \<Longrightarrow> hasAccess (currentUserId st) c"
  by (auto simp: getBookClub_def split: option.splits if_splits)

lemma detectConflict_watermark:
  assumes "detectConflict st now p = Inr (Some cf)"
  shows "conflict_type cf = ''concurrent_modification'' \<longleftrightarrow>
         (\<exists>t1 t2. r_updated_at (remoteRecord cf) = Some t1
             \<and> lastUpdate st (r_id (remoteRecord cf)) = Some t2 \<and> t1 < t2)"
  using assms
  by (auto simp: detectConflict_def Let_def split: option.splits if_splits)

lemma watermark_detected:
  assumes "new_rec p = Some r" and "getBookClub st (r_id r) = Some l"
      and "r_updated_at r = Some t1" and "lastUpdate st (r_id r) = Some t2" and "t1 < t2"
  shows "\<exists>cf. detectConflict st now p = Inr (Some cf)"
  using assms by (simp add: detectConflict_def)

lemma getBookClub_after_resolve:
  assumes d1: "detectConflict st now p = Inr (Some cf)"
  shows "\<exists>l. getBookClub (resolveConflict cf st) (r_id (remoteRecord cf)) = Some l"
proof -
  let ?st1 = "resolveConflict cf st"
  let ?K = "js_key (r_id (remoteRecord cf))"
  from detectConflict_SomeD [OF d1]
  have g1: "getBookClub st (r_id (remoteRecord cf)) = Some (localClub cf)"
    and t1: "conflict_type cf = ''concurrent_modification'' \<or> conflict_type cf = ''book_list_conflict''"
    by simp_all
  have acc: "hasAccess (currentUserId st) (localClub cf)"
    using getBookClub_access [OF g1] .
  from resolveConflict_written [OF t1 acc] obtain m where
    s1: "bookClubs ?st1 = (bookClubs st)(js_key (c_id (localClub cf)) \<mapsto> m)"
    and am: "hasAccess (currentUserId st) m"
    by blast
  have "\<exists>c. bookClubs ?st1 ?K = Some c \<and> hasAccess (currentUserId st) c"
    using s1 am acc getBookClub_SomeD [OF g1] by auto
  then show ?thesis
    by (auto simp: getBookClub_def resolveConflict_unchanged)
qed

lemma concurrent_redetected:
  assumes d1: "detectConflict st now p = Inr (Some cf)"
      and ty: "conflict_type cf = ''concurrent_modification''"
  shows "\<exists>cf'. detectConflict (resolveConflict cf st) now' p = Inr (Some cf')"
proof -
  from detectConflict_SomeD [OF d1] have p1: "new_rec p = Some (remoteRecord cf)" by simp
  from detectConflict_watermark [OF d1] ty obtain t1 t2 where
    w: "r_updated_at (remoteRecord cf) = Some t1" "lastUpdate st (r_id (remoteRecord cf)) = Some t2"
       "t1 < t2"
    by blast
  from getBookClub_after_resolve [OF d1] obtain l where
    g: "getBookClub (resolveConflict cf st) (r_id (remoteRecord cf)) = Some l" by blast
  from w(2) have w2: "lastUpdate (resolveConflict cf st) (r_id (remoteRecord cf)) = Some t2"
    by (simp add: resolveConflict_unchanged)
  from watermark_detected [OF p1 g w(1) w2 w(3)] show ?thesis .
qed

lemma self_echo_twice:
  assumes "case new_rec p of None \<Rightarrow> False | Some r \<Rightarrow> r_user_id r = Str (currentUserId st)"
  shows "handleBookClubUpdate st now p = st"
  using assms by (simp add: handleBookClubUpdate_def tryBookClubUpdate_def)

lemma first_delivery_resolves:
  assumes "conflictResolutionEnabled st" and "detectConflict st now p = Inr (Some cf)"
      and "\<not> (case new_rec p of None \<Rightarrow> False | Some r \<Rightarrow> r_user_id r = Str (currentUserId st))"
  shows "handleBookClubUpdate st now p = resolveConflict cf st"
  using assms by (simp add: handleBookClubUpdate_def tryBookClubUpdate_def)

lemma redelivered_concurrent:
  assumes en: "conflictResolutionEnabled st"
      and d1: "detectConflict st now p = Inr (Some cf)"
      and ty: "conflict_type cf = ''concurrent_modification''"
  shows "map_option c_books (bookClubs (handleBookClubUpdate (handleBookClubUpdate st now p) now' p) k)
       = map_option c_books (bookClubs (handleBookClubUpdate st now p) k)"
proof (cases "case new_rec p of None \<Rightarrow> False | Some r \<Rightarrow> r_user_id r = Str (currentUserId st)")
  case True
  from self_echo_twice [OF True] show ?thesis by simp
next
  case False
  from first_delivery_resolves [OF en d1 False]
  have e1: "handleBookClubUpdate st now p = resolveConflict cf st" .
  from concurrent_redetected [OF d1 ty] obtain cf' where
    "detectConflict (resolveConflict cf st) now' p = Inr (Some cf')" by blast
  with e1 have d2: "detectConflict (handleBookClubUpdate st now p) now' p = Inr (Some cf')" by simp
  from redelivered_update_books [OF en d1 d2] show ?thesis .
qed

lemma detectConflict_not_error:
  "new_rec p = Some r \<Longrightarrow> detectConflict st now p \<noteq> Inl e"
  by (auto simp: detectConflict_def Let_def split: option.splits)

lemma handleClubInsertOrUpdate_denied:
  assumes "r_user_id r \<noteq> Str (currentUserId st)"
      and "\<not> (\<exists>us. r_shared_users r = Some us \<and> currentUserId st \<in> set us)"
  shows "handleClubInsertOrUpdate (Some r) st = Inr st"
  using assms
  by (auto simp: handleClubInsertOrUpdate_def Let_def split: option.splits)

lemma handleClubDelete_store:
  assumes "handleClubDelete rec st = Inr st'"
  shows "bookClubs st' k = bookClubs st k \<or> bookClubs st' k = None"
  using assms
  by (auto simp: handleClubDelete_def removeBookClub_def setTimeout_def
      showRealtimeNotification_def emit_signal_def Let_def split: option.splits if_splits)

lemma redelivered_not_applied:
  assumes en: "conflictResolutionEnabled st"
      and d1: "detectConflict st now p = Inr (Some cf)"
      and nd: "eventType p \<noteq> ''DELETE''"
      and na: "\<not> ((eventType p = ''INSERT'' \<or> eventType p = ''UPDATE'')
                  \<and> (\<exists>us. r_shared_users (remoteRecord cf) = Some us
                         \<and> currentUserId st \<in> set us))"
  shows "map_option c_books (bookClubs (handleBookClubUpdate (handleBookClubUpdate st now p) now' p) k)
       = map_option c_books (bookClubs (handleBookClubUpdate st now p) k)"
proof (cases "case new_rec p of None \<Rightarrow> False | Some r \<Rightarrow> r_user_id r = Str (currentUserId st)")
  case True
  from self_echo_twice [OF True] show ?thesis by simp
next
  case False
  let ?st1 = "resolveConflict cf st"
  from first_delivery_resolves [OF en d1 False]
  have e1: "handleBookClubUpdate st now p = ?st1" .
  from detectConflict_SomeD [OF d1] have p1: "new_rec p = Some (remoteRecord cf)" by simp
  with False have ne: "r_user_id (remoteRecord cf) \<noteq> Str (currentUserId ?st1)"
    by (simp add: resolveConflict_unchanged)
  have en1: "conflictResolutionEnabled ?st1"
    using en by (simp add: resolveConflict_frame)
  show ?thesis
  proof (cases "detectConflict ?st1 now' p")
    case (Inl e)
    with detectConflict_not_error [OF p1] show ?thesis by simp
  next
    case (Inr res)
    show ?thesis
    proof (cases res)
      case (Some cf')
      with Inr e1 have "detectConflict (handleBookClubUpdate st now p) now' p = Inr (Some cf')"
        by simp
      from redelivered_update_books [OF en d1 this] show ?thesis .
    next
      case None
      have "bookClubs (handleBookClubUpdate ?st1 now' p) = bookClubs ?st1"
      proof (cases "eventType p = ''INSERT'' \<or> eventType p = ''UPDATE''")
        case True
        with na have "\<not> (\<exists>us. r_shared_users (remoteRecord cf) = Some us
                          \<and> currentUserId ?st1 \<in> set us)"
          by (simp add: resolveConflict_unchanged)
        from handleClubInsertOrUpdate_denied [OF ne this] True Inr None en1 p1 ne
        show ?thesis
          by (simp add: handleBookClubUpdate_def tryBookClubUpdate_def)
      next
        case other: False
        with nd Inr None en1 p1 ne show ?thesis
          by (simp add: handleBookClubUpdate_def tryBookClubUpdate_def)
      qed
      with e1 show ?thesis by simp
    qed
  qed
qed

lemma redelivered_delete:
  assumes en: "conflictResolutionEnabled st"
      and d1: "detectConflict st now p = Inr (Some cf)"
      and dl: "eventType p = ''DELETE''"
  shows "map_option c_books (bookClubs (handleBookClubUpdate (handleBookClubUpdate st now p) now' p) k)
           = map_option c_books (bookClubs (handleBookClubUpdate st now p) k)
       \<or> bookClubs (handleBookClubUpdate (handleBookClubUpdate st now p) now' p) k = None"
proof (cases "case new_rec p of None \<Rightarrow> False | Some r \<Rightarrow> r_user_id r = Str (currentUserId st)")
  case True
  from self_echo_twice [OF True] show ?thesis by simp
next
  case False
  let ?st1 = "resolveConflict cf st"
  from first_delivery_resolves [OF en d1 False]
  have e1: "handleBookClubUpdate st now p = ?st1" .
  from detectConflict_SomeD [OF d1] have p1: "new_rec p = Some (remoteRecord cf)" by simp
  with False have ne: "r_user_id (remoteRecord cf) \<noteq> Str (currentUserId ?st1)"
    by (simp add: resolveConflict_unchanged)
  have en1: "conflictResolutionEnabled ?st1"
    using en by (simp add: resolveConflict_frame)
  show ?thesis
  proof (cases "detectConflict ?st1 now' p")
    case (Inl e)
    with detectConflict_not_error [OF p1] show ?thesis by simp
  next
    case (Inr res)
    show ?thesis
    proof (cases res)
      case (Some cf')
      with Inr e1 have "detectConflict (handleBookClubUpdate st now p) now' p = Inr (Some cf')"
        by simp
      from redelivered_update_books [OF en d1 this] show ?thesis by simp
    next
      case None
      have "bookClubs (handleBookClubUpdate ?st1 now' p) k = bookClubs ?st1 k
          \<or> bookClubs (handleBookClubUpdate ?st1 now' p) k = None"
      proof (cases "handleClubDelete (old_rec p) ?st1")
        case (Inl e)
        with dl Inr None en1 p1 ne show ?thesis
          by (simp add: handleBookClubUpdate_def tryBookClubUpdate_def handleUpdateError_def
              setTimeout_def showRealtimeNotification_def emit_signal_def)
      next
        case del: (Inr st')
        from handleClubDelete_store [OF del, of k] dl del Inr None en1 p1 ne show ?thesis
          by (simp add: handleBookClubUpdate_def tryBookClubUpdate_def)
      qed
      with e1 show ?thesis by auto
    qed
  qed
qed

lemma detectConflict_after_merge:
  assumes d1: "detectConflict st now p = Inr (Some cf)"
      and ty: "conflict_type cf = ''book_list_conflict''"
      and key: "js_key (c_id (localClub cf)) = js_key (r_id (remoteRecord cf))"
  shows "detectConflict (resolveConflict cf st) now' p = Inr None"
proof -
  let ?st1 = "resolveConflict cf st"
  let ?r = "remoteRecord cf"
  let ?rb = "books_or_empty (r_books ?r)"
  from detectConflict_SomeD [OF d1]
  have p1: "new_rec p = Some ?r" and g1: "getBookClub st (r_id ?r) = Some (localClub cf)"
    by simp_all
  have acc: "hasAccess (currentUserId st) (localClub cf)"
    using getBookClub_access [OF g1] .
  from ty have t1: "conflict_type cf = ''concurrent_modification'' \<or> conflict_type cf = ''book_list_conflict''"
    by simp
  from resolveConflict_written [OF t1 acc] obtain m where
    s1: "bookClubs ?st1 = (bookClubs st)(js_key (c_id (localClub cf)) \<mapsto> m)"
    and bm: "c_books m = new_Set (c_books (localClub cf) @ ?rb)"
    and am: "hasAccess (currentUserId st) m"
    by blast
  from s1 key am have g2: "getBookClub ?st1 (r_id ?r) = Some m"
    by (simp add: getBookClub_def resolveConflict_unchanged)
  from detectConflict_watermark [OF d1] ty
  have nw: "\<not> (\<exists>t1 t2. r_updated_at ?r = Some t1 \<and> lastUpdate st (r_id ?r) = Some t2 \<and> t1 < t2)"
    by simp
  have ro: "filter (\<lambda>book. book \<notin> set (new_Set (c_books m))) (new_Set ?rb) = []"
    by (auto simp: bm set_new_Set filter_empty_conv)
  from nw show ?thesis
    by (auto simp: detectConflict_def p1 g2 ro resolveConflict_unchanged Let_def
        split: option.splits)
qed

lemma redelivered_applied:
  assumes en: "conflictResolutionEnabled st"
      and d1: "detectConflict st now p = Inr (Some cf)"
      and ty: "conflict_type cf = ''book_list_conflict''"
      and key: "js_key (c_id (localClub cf)) = js_key (r_id (remoteRecord cf))"
      and ev: "eventType p = ''INSERT'' \<or> eventType p = ''UPDATE''"
      and ne: "r_user_id (remoteRecord cf) \<noteq> Str (currentUserId st)"
      and sh: "\<exists>us. r_shared_users (remoteRecord cf) = Some us \<and> currentUserId st \<in> set us"
  shows "map_option c_books (bookClubs (handleBookClubUpdate (handleBookClubUpdate st now p) now' p)
            (js_key (r_id (remoteRecord cf))))
       = Some (books_or_empty (r_books (remoteRecord cf)))"
proof -
  let ?st1 = "resolveConflict cf st"
  from detectConflict_SomeD [OF d1] have p1: "new_rec p = Some (remoteRecord cf)" by simp
  with ne have "\<not> (case new_rec p of None \<Rightarrow> False | Some r \<Rightarrow> r_user_id r = Str (currentUserId st))"
    by simp
  from first_delivery_resolves [OF en d1 this]
  have e1: "handleBookClubUpdate st now p = ?st1" .
  have en1: "conflictResolutionEnabled ?st1"
    using en by (simp add: resolveConflict_frame)
  have d2: "detectConflict ?st1 now' p = Inr None"
    using detectConflict_after_merge [OF d1 ty key] .
  from sh obtain us where us: "r_shared_users (remoteRecord cf) = Some us" "currentUserId st \<in> set us"
    by blast
  have "map_option c_books (bookClubs (handleBookClubUpdate ?st1 now' p) (js_key (r_id (remoteRecord cf))))
       = Some (books_or_empty (r_books (remoteRecord cf)))"
    using ev en1 d2 p1 ne us
    by (auto simp: handleBookClubUpdate_def tryBookClubUpdate_def handleClubInsertOrUpdate_def
        setBookClub_def showRealtimeNotification_def emit_signal_def resolveConflict_unchanged Let_def)
  with e1 show ?thesis by simp
qed

lemma first_delivery_X: "handleBookClubUpdate store_X_synced 300 update_BC
    = store_X_synced\<lparr> bookClubs := [''X'' \<mapsto> merged_ABC],
                       signals := [Notify ChangesMerged, SaveData] \<rparr>"
  by (simp add: club_AB_def remote_BC_def update_BC_def store_X_def store_X_synced_def
      initial_def merged_ABC_def dispatcher_defs Let_def)

text \<open>
  C2, as amended. The club that \<open>resolveConcurrentModification\<close> writes, under the
  key of the local club's id, has as items the union of the local and the remote items
  (local items first in their order, then the remote-only items in remote order, without
  duplicates), the name of the remote record, and the remote current selection when it
  is truthy, else the local one. The id and the creation time are those of the local
  club, and the owner id is the local one (the current user's when the local club has
  none): of the scalar fields only the name comes from the remote record.
\<close>

theorem concurrent_modification_written:
  "\<exists>m. bookClubs (resolveConcurrentModification cf st) (js_key (c_id (localClub cf))) = Some m
      \<and> c_books m = spec_union (c_books (localClub cf)) (books_or_empty (r_books (remoteRecord cf)))
      \<and> c_name m = r_name (remoteRecord cf)
      \<and> c_currentSelection m =
          (if truthy (r_current_selection (remoteRecord cf))
           then r_current_selection (remoteRecord cf) else c_currentSelection (localClub cf))
      \<and> c_id m = c_id (localClub cf)
      \<and> c_createdAt m = c_createdAt (localClub cf)
      \<and> c_userId m = js_or (c_userId (localClub cf)) (Str (currentUserId st))"
  by (simp add: resolveConcurrentModification_def mergedConcurrent_def setBookClub_def
      showRealtimeNotification_def emit_signal_def Let_def new_Set_union js_or_def)

text \<open>
  C2 as stated fails: the remote row of club \<open>X\<close> has another creation time than the
  local copy, and the merged club keeps the local one.
\<close>

theorem created_at_kept_local_counterexample:
  "map_option c_createdAt (bookClubs (resolveConcurrentModification conflict_X store_X_synced) ''X'')
     = Some (Str ''2024-01-01'')
   \<and> r_created_at (remoteRecord conflict_X) = Str ''2024-02-02''"
  by (simp add: club_AB_def remote_BC_def conflict_X_def store_X_def store_X_synced_def
      initial_def resolveConcurrentModification_def mergedConcurrent_def setBookClub_def
      showRealtimeNotification_def emit_signal_def Let_def)

text \<open>
  C3, as amended. Both resolvers merge the local items A, B and the remote items B, C
  to A, B, C; with the sides exchanged the items are B, C, A. Merging the result with
  the same remote record again gives the same item list, and the items of a merge are,
  as a set, the union of both lists, whichever side is local. For a notification that
  is detected as a conflict, a second delivery changes the item list of no club

  \<^item> when the conflict was a concurrent modification,
  \<^item> when the notification is not a DELETE and is not an INSERT or UPDATE whose shared
    users hold the local user (it is then not applied),
  \<^item> when the second delivery is detected as a conflict again.

  A DELETE delivered again removes a club or leaves every item list as it was. The one
  case left is an item-list conflict of an INSERT or UPDATE of another user whose shared
  users hold the local user, merged under the key of the remote id: the second delivery
  is applied directly and the club's items become the remote list.
\<close>

theorem union_merge_idempotent:
  "(c_books l = [''A'', ''B''] \<and> r_books r = Some [''B'', ''C''] \<longrightarrow>
      c_books (mergedConcurrent l r) = [''A'', ''B'', ''C'']
      \<and> c_books (mergedBookList l r) = [''A'', ''B'', ''C''])
   \<and> (c_books l = [''B'', ''C''] \<and> r_books r = Some [''A'', ''B''] \<longrightarrow>
      c_books (mergedConcurrent l r) = [''B'', ''C'', ''A'']
      \<and> c_books (mergedBookList l r) = [''B'', ''C'', ''A''])
   \<and> c_books (mergedConcurrent (mergedConcurrent l r) r) = c_books (mergedConcurrent l r)
   \<and> c_books (mergedBookList (mergedBookList l r) r) = c_books (mergedBookList l r)
   \<and> set (c_books (mergedConcurrent l r)) = set (c_books l) \<union> set (books_or_empty (r_books r))
   \<and> set (c_books (mergedBookList l r)) = set (c_books l) \<union> set (books_or_empty (r_books r))
   \<and> (conflictResolutionEnabled st \<and> detectConflict st now p = Inr (Some cf) \<longrightarrow>
        (conflict_type cf = ''concurrent_modification'' \<longrightarrow>
           (\<forall>k. map_option c_books
                   (bookClubs (handleBookClubUpdate (handleBookClubUpdate st now p) now' p) k)
               = map_option c_books (bookClubs (handleBookClubUpdate st now p) k)))
      \<and> (eventType p \<noteq> ''DELETE''
          \<and> \<not> ((eventType p = ''INSERT'' \<or> eventType p = ''UPDATE'')
                \<and> (\<exists>us. r_shared_users (remoteRecord cf) = Some us
                       \<and> currentUserId st \<in> set us)) \<longrightarrow>
           (\<forall>k. map_option c_books
                   (bookClubs (handleBookClubUpdate (handleBookClubUpdate st now p) now' p) k)
               = map_option c_books (bookClubs (handleBookClubUpdate st now p) k)))
      \<and> (eventType p = ''DELETE'' \<longrightarrow>
           (\<forall>k. map_option c_books
                   (bookClubs (handleBookClubUpdate (handleBookClubUpdate st now p) now' p) k)
                 = map_option c_books (bookClubs (handleBookClubUpdate st now p) k)
               \<or> bookClubs (handleBookClubUpdate (handleBookClubUpdate st now p) now' p) k = None))
      \<and> (detectConflict (handleBookClubUpdate st now p) now' p = Inr (Some cf') \<longrightarrow>
           (\<forall>k. map_option c_books
                   (bookClubs (handleBookClubUpdate (handleBookClubUpdate st now p) now' p) k)
               = map_option c_books (bookClubs (handleBookClubUpdate st now p) k)))
      \<and> (conflict_type cf = ''book_list_conflict''
          \<and> js_key (c_id (localClub cf)) = js_key (r_id (remoteRecord cf))
          \<and> (eventType p = ''INSERT'' \<or> eventType p = ''UPDATE'')
          \<and> r_user_id (remoteRecord cf) \<noteq> Str (currentUserId st)
          \<and> (\<exists>us. r_shared_users (remoteRecord cf) = Some us \<and> currentUserId st \<in> set us) \<longrightarrow>
           map_option c_books
             (bookClubs (handleBookClubUpdate (handleBookClubUpdate st now p) now' p)
                (js_key (r_id (remoteRecord cf))))
           = Some (books_or_empty (r_books (remoteRecord cf)))))"
  (is "?ex \<and> ?sw \<and> ?i1 \<and> ?i2 \<and> ?u1 \<and> ?u2 \<and> (?H \<longrightarrow> ?R)")
proof -
  have ex: ?ex
    by (simp add: mergedConcurrent_def mergedBookList_def books_or_empty_def new_Set_def set_add_def)
  have sw: ?sw
    by (simp add: mergedConcurrent_def mergedBookList_def books_or_empty_def new_Set_def set_add_def)
  have i1: ?i1
    by (simp add: mergedConcurrent_def new_Set_idem)
  have i2: ?i2
    by (simp add: mergedBookList_def new_Set_idem)
  have u1: ?u1
    by (simp add: mergedConcurrent_def set_new_Set)
  have u2: ?u2
    by (simp add: mergedBookList_def set_new_Set)
  have re: "?H \<longrightarrow> ?R"
  proof
    assume "?H"
    then have en: "conflictResolutionEnabled st" and d1: "detectConflict st now p = Inr (Some cf)"
      by simp_all
    show ?R
    proof (intro conjI impI allI)
      fix k assume "conflict_type cf = ''concurrent_modification''"
      from redelivered_concurrent [OF en d1 this]
      show "map_option c_books
              (bookClubs (handleBookClubUpdate (handleBookClubUpdate st now p) now' p) k)
            = map_option c_books (bookClubs (handleBookClubUpdate st now p) k)" .
    next
      fix k assume "eventType p \<noteq> ''DELETE''
            \<and> \<not> ((eventType p = ''INSERT'' \<or> eventType p = ''UPDATE'')
                  \<and> (\<exists>us. r_shared_users (remoteRecord cf) = Some us
                         \<and> currentUserId st \<in> set us))"
      then show "map_option c_books
              (bookClubs (handleBookClubUpdate (handleBookClubUpdate st now p) now' p) k)
            = map_option c_books (bookClubs (handleBookClubUpdate st now p) k)"
        using redelivered_not_applied [OF en d1] by blast
    next
      fix k assume "eventType p = ''DELETE''"
      from redelivered_delete [OF en d1 this]
      show "map_option c_books
              (bookClubs (handleBookClubUpdate (handleBookClubUpdate st now p) now' p) k)
              = map_option c_books (bookClubs (handleBookClubUpdate st now p) k)
            \<or> bookClubs (handleBookClubUpdate (handleBookClubUpdate st now p) now' p) k = None" .
    next
      fix k assume "detectConflict (handleBookClubUpdate st now p) now' p = Inr (Some cf')"
      from redelivered_update_books [OF en d1 this]
      show "map_option c_books
              (bookClubs (handleBookClubUpdate (handleBookClubUpdate st now p) now' p) k)
            = map_option c_books (bookClubs (handleBookClubUpdate st now p) k)" .
    next
      assume "conflict_type cf = ''book_list_conflict''
            \<and> js_key (c_id (localClub cf)) = js_key (r_id (remoteRecord cf))
            \<and> (eventType p = ''INSERT'' \<or> eventType p = ''UPDATE'')
            \<and> r_user_id (remoteRecord cf) \<noteq> Str (currentUserId st)
            \<and> (\<exists>us. r_shared_users (remoteRecord cf) = Some us \<and> currentUserId st \<in> set us)"
      then show "map_option c_books
               (bookClubs (handleBookClubUpdate (handleBookClubUpdate st now p) now' p)
                  (js_key (r_id (remoteRecord cf))))
             = Some (books_or_empty (r_books (remoteRecord cf)))"
        using redelivered_applied [OF en d1] by blast
    qed
  qed
  show ?thesis
    by (intro conjI ex sw i1 i2 u1 u2 re)
qed

lemma detect_store_X:
  "detectConflict store_X 300 update_BC = Inr (Some conflict_X_books)"
  "detectConflict store_X 300 update_BC_private = Inr (Some conflict_X_private)"
  "detectConflict store_X 300 delete_BC = Inr (Some conflict_X_books)"
  by (simp_all add: club_AB_def remote_BC_def update_BC_def store_X_def initial_def
      conflict_X_books_def conflict_X_private_def remote_BC_private_def update_BC_private_def
      delete_BC_def detectConflict_def getBookClub_def hasAccess_def isOwner_def
      isSharedWithUser_def books_or_empty_def new_Set_def set_add_def Let_def)

lemma first_delivery_store_X:
  "map_option c_books (bookClubs (handleBookClubUpdate store_X 300 update_BC_private) ''X'')
     = Some [''A'', ''B'', ''C'']"
  by (simp add: club_AB_def remote_BC_def store_X_def initial_def remote_BC_private_def
      update_BC_private_def dispatcher_defs Let_def)

text \<open>
  The amended C3 at four notifications for club \<open>X\<close>: a concurrent modification, an
  item-list conflict of a row that is not shared with the user, one of a shared row,
  and a DELETE.
\<close>

theorem union_merge_idempotent_witness:
  "conflictResolutionEnabled store_X_synced
   \<and> detectConflict store_X_synced 300 update_BC = Inr (Some conflict_X)
   \<and> conflict_type conflict_X = ''concurrent_modification''
   \<and> map_option c_books
        (bookClubs (handleBookClubUpdate (handleBookClubUpdate store_X_synced 300 update_BC)
                      400 update_BC) ''X'')
       = Some [''A'', ''B'', ''C'']
   \<and> conflictResolutionEnabled store_X
   \<and> detectConflict store_X 300 update_BC_private = Inr (Some conflict_X_private)
   \<and> map_option c_books
        (bookClubs (handleBookClubUpdate (handleBookClubUpdate store_X 300 update_BC_private)
                      400 update_BC_private) ''X'')
       = Some [''A'', ''B'', ''C'']
   \<and> detectConflict store_X 300 update_BC = Inr (Some conflict_X_books)
   \<and> map_option c_books
        (bookClubs (handleBookClubUpdate (handleBookClubUpdate store_X 300 update_BC)
                      400 update_BC) ''X'')
       = Some [''B'', ''C'']
   \<and> detectConflict store_X 300 delete_BC = Inr (Some conflict_X_books)
   \<and> (map_option c_books
        (bookClubs (handleBookClubUpdate (handleBookClubUpdate store_X 300 delete_BC)
                      400 delete_BC) ''X'')
       = map_option c_books (bookClubs (handleBookClubUpdate store_X 300 delete_BC) ''X'')
      \<or> bookClubs (handleBookClubUpdate (handleBookClubUpdate store_X 300 delete_BC)
                      400 delete_BC) ''X'' = None)"
proof -
  have en1: "conflictResolutionEnabled store_X_synced" and en2: "conflictResolutionEnabled store_X"
    by (simp_all add: store_X_synced_def store_X_def initial_def)
  have d1: "detectConflict store_X_synced 300 update_BC = Inr (Some conflict_X)"
    by (simp add: club_AB_def remote_BC_def update_BC_def store_X_def store_X_synced_def
        initial_def conflict_X_def detectConflict_def getBookClub_def hasAccess_def isOwner_def
        isSharedWithUser_def)
  have ty1: "conflict_type conflict_X = ''concurrent_modification''"
    by (simp add: conflict_X_def)
  have b1: "map_option c_books (bookClubs (handleBookClubUpdate store_X_synced 300 update_BC) ''X'')
       = Some [''A'', ''B'', ''C'']"
    unfolding first_delivery_X by (simp add: merged_ABC_def)
  have w1: "map_option c_books
        (bookClubs (handleBookClubUpdate (handleBookClubUpdate store_X_synced 300 update_BC)
                      400 update_BC) ''X'')
       = Some [''A'', ''B'', ''C'']"
    using union_merge_idempotent [where st = store_X_synced and now = 300 and p = update_BC
        and cf = conflict_X and now' = 400] en1 d1 ty1 b1
    by simp
  have ev2: "eventType update_BC_private \<noteq> ''DELETE''"
    and ns2: "\<not> (\<exists>us. r_shared_users (remoteRecord conflict_X_private) = Some us
                 \<and> currentUserId store_X \<in> set us)"
    by (simp_all add: update_BC_private_def conflict_X_private_def remote_BC_private_def)
  have w2: "map_option c_books
        (bookClubs (handleBookClubUpdate (handleBookClubUpdate store_X 300 update_BC_private)
                      400 update_BC_private) ''X'')
       = Some [''A'', ''B'', ''C'']"
    using union_merge_idempotent [where st = store_X and now = 300 and p = update_BC_private
        and cf = conflict_X_private and now' = 400] en2 detect_store_X(2) ev2 ns2
        first_delivery_store_X
    by simp
  have h3: "conflict_type conflict_X_books = ''book_list_conflict''
          \<and> js_key (c_id (localClub conflict_X_books)) = js_key (r_id (remoteRecord conflict_X_books))
          \<and> (eventType update_BC = ''INSERT'' \<or> eventType update_BC = ''UPDATE'')
          \<and> r_user_id (remoteRecord conflict_X_books) \<noteq> Str (currentUserId store_X)
          \<and> (\<exists>us. r_shared_users (remoteRecord conflict_X_books) = Some us
                 \<and> currentUserId store_X \<in> set us)"
    by (simp add: conflict_X_books_def club_AB_def remote_BC_def update_BC_def store_X_def
        initial_def)
  have k3: "js_key (r_id (remoteRecord conflict_X_books)) = ''X''"
    and r3: "books_or_empty (r_books (remoteRecord conflict_X_books)) = [''B'', ''C'']"
    by (simp_all add: conflict_X_books_def remote_BC_def books_or_empty_def)
  have w3: "map_option c_books
        (bookClubs (handleBookClubUpdate (handleBookClubUpdate store_X 300 update_BC)
                      400 update_BC) ''X'')
       = Some [''B'', ''C'']"
    using union_merge_idempotent [where st = store_X and now = 300 and p = update_BC
        and cf = conflict_X_books and now' = 400] en2 detect_store_X(1) h3 k3 r3
    by simp
  have ev4: "eventType delete_BC = ''DELETE''"
    by (simp add: delete_BC_def)
  have w4: "map_option c_books
        (bookClubs (handleBookClubUpdate (handleBookClubUpdate store_X 300 delete_BC)
                      400 delete_BC) ''X'')
       = map_option c_books (bookClubs (handleBookClubUpdate store_X 300 delete_BC) ''X'')
      \<or> bookClubs (handleBookClubUpdate (handleBookClubUpdate store_X 300 delete_BC)
                      400 delete_BC) ''X'' = None"
  proof -
    have "\<forall>k. map_option c_books
              (bookClubs (handleBookClubUpdate (handleBookClubUpdate store_X 300 delete_BC)
                            400 delete_BC) k)
            = map_option c_books (bookClubs (handleBookClubUpdate store_X 300 delete_BC) k)
          \<or> bookClubs (handleBookClubUpdate (handleBookClubUpdate store_X 300 delete_BC)
                            400 delete_BC) k = None"
      using union_merge_idempotent [where l = club_AB and r = remote_BC and st = store_X
          and now = 300 and p = delete_BC and cf = conflict_X_books and now' = 400
          and cf' = conflict_X_books] en2 detect_store_X(3) ev4
      by simp
    then show ?thesis by (rule spec)
  qed
  from en1 d1 ty1 w1 en2 detect_store_X w2 w3 w4 show ?thesis by simp
qed

text \<open>
  C3 as stated fails for a repeated delivery. The first delivery of the remote items
  B, C against the local items A, B is an item-list conflict and merges to A, B, C. At
  the second delivery the remote list has no item that the local list lacks, so no
  conflict is detected, the record is applied directly, and the local item A is gone.
\<close>

theorem redelivery_drops_local_item_counterexample:
  "map_option c_books (bookClubs (handleBookClubUpdate store_X 300 update_BC) ''X'')
     = Some [''A'', ''B'', ''C'']
   \<and> map_option c_books
        (bookClubs (handleBookClubUpdate (handleBookClubUpdate store_X 300 update_BC)
                      400 update_BC) ''X'')
     = Some [''B'', ''C'']"
  by (simp add: club_AB_def remote_BC_def update_BC_def store_X_def initial_def
      dispatcher_defs Let_def)

text \<open>
  C9, as amended. Both merges write an item list without duplicates, whatever the
  local and the remote lists hold. The direct application of an inserted or updated
  record that the user may read writes the record's item list as it is (the empty list
  when the record has none), so the written list is free of duplicates exactly when the
  remote one is.
\<close>

theorem write_paths_items:
  "(\<exists>m. bookClubs (resolveConcurrentModification cf st) (js_key (c_id (localClub cf))) = Some m
        \<and> distinct (c_books m))
   \<and> (\<exists>m. bookClubs (resolveBookListConflict cf st) (js_key (c_id (localClub cf))) = Some m
        \<and> distinct (c_books m))
   \<and> (r_user_id r = Str (currentUserId st)
        \<or> (\<exists>us. r_shared_users r = Some us \<and> currentUserId st \<in> set us) \<longrightarrow>
       (\<exists>st' m. handleClubInsertOrUpdate (Some r) st = Inr st'
          \<and> bookClubs st' (js_key (r_id r)) = Some m
          \<and> c_books m = books_or_empty (r_books r)
          \<and> (distinct (c_books m) \<longleftrightarrow> distinct (books_or_empty (r_books r)))))"
proof -
  have a: "\<exists>m. bookClubs (resolveConcurrentModification cf st) (js_key (c_id (localClub cf))) = Some m
        \<and> distinct (c_books m)"
    by (simp add: resolveConcurrentModification_def mergedConcurrent_def setBookClub_def
        showRealtimeNotification_def emit_signal_def Let_def distinct_new_Set)
  have b: "\<exists>m. bookClubs (resolveBookListConflict cf st) (js_key (c_id (localClub cf))) = Some m
        \<and> distinct (c_books m)"
    by (simp add: resolveBookListConflict_def mergedBookList_def setBookClub_def
        showRealtimeNotification_def emit_signal_def Let_def distinct_new_Set)
  have c: "r_user_id r = Str (currentUserId st)
        \<or> (\<exists>us. r_shared_users r = Some us \<and> currentUserId st \<in> set us) \<longrightarrow>
       (\<exists>st' m. handleClubInsertOrUpdate (Some r) st = Inr st'
          \<and> bookClubs st' (js_key (r_id r)) = Some m
          \<and> c_books m = books_or_empty (r_books r)
          \<and> (distinct (c_books m) \<longleftrightarrow> distinct (books_or_empty (r_books r))))"
    by (auto simp: handleClubInsertOrUpdate_def setBookClub_def showRealtimeNotification_def
        emit_signal_def Let_def)
  from a b c show ?thesis by blast
qed

theorem write_paths_items_witness:
  "(r_user_id remote_BC = Str (currentUserId store_X)
      \<or> (\<exists>us. r_shared_users remote_BC = Some us \<and> currentUserId store_X \<in> set us))
   \<and> (\<exists>st' m. handleClubInsertOrUpdate (Some remote_BC) store_X = Inr st'
          \<and> bookClubs st' (js_key (r_id remote_BC)) = Some m
          \<and> c_books m = [''B'', ''C''])"
proof -
  have h: "r_user_id remote_BC = Str (currentUserId store_X)
      \<or> (\<exists>us. r_shared_users remote_BC = Some us \<and> currentUserId store_X \<in> set us)"
    by (simp add: remote_BC_def store_X_def initial_def)
  have "books_or_empty (r_books remote_BC) = [''B'', ''C'']"
    by (simp add: remote_BC_def books_or_empty_def)
  with h show ?thesis
    using write_paths_items [of conflict_X store_X remote_BC] by auto
qed

text \<open>
  C9 as stated fails on the direct path: the stored club holds A, B without
  duplicates, the remote row holds A, A, B, no conflict is detected, and the club is
  written with the duplicate.
\<close>

theorem direct_apply_duplicates_counterexample:
  "map_option c_books (bookClubs store_X ''X'') = Some [''A'', ''B'']
   \<and> distinct [''A'', ''B'']
   \<and> map_option c_books (bookClubs (handleBookClubUpdate store_X 300 update_AAB) ''X'')
       = Some [''A'', ''A'', ''B'']
   \<and> \<not> distinct [''A'', ''A'', ''B'']"
  by (simp add: club_AB_def remote_BC_def update_AAB_def store_X_def initial_def
      dispatcher_defs Let_def)

text \<open>
  C8. The code at the DELETE notification for club \<open>X\<close>, which belongs to another
  user, while the local user views it: \<open>removeBookClub\<close> refuses, and the club stays
  in the store though the deletion notice is shown and the return to the home view is
  scheduled.
\<close>

theorem remote_delete_divergence:
  "bookClubs (handleBookClubUpdate store_X_focused 300 delete_X) ''X'' = Some club_AB
   \<and> signals (handleBookClubUpdate store_X_focused 300 delete_X)
       = [UpdateBookClubsList, Notify ClubDeleted, SaveToLocalStorage]
   \<and> timers (handleBookClubUpdate store_X_focused 300 delete_X) = [ShowHomeTimer 2000]"
  by (simp add: club_AB_def empty_record_def delete_X_def store_X_def
      store_X_focused_def initial_def dispatcher_defs Let_def)

section \<open>Subscription registry and reconnection supervisor: properties\<close>

lemmas registry_defs = run_def subscribeToBookClub_def has_key_def setupPresenceTracking_def
  handleSubscriptionStatus_def attemptReconnect_def handleSubscriptionError_def
  maxReconnectAttempts_def reconnectDelay_def setTimeout_def showRealtimeNotification_def
  emit_signal_def showConnectionStatus_def unsubscribeFromBookClub_def
  cleanupPresenceTracking_def fireTimer_def handleConnectionRestored_def loadData_def



text \<open>
  C6. The code at the browser's online event with the clubs \<open>X\<close> and \<open>Y\<close> in the
  registry: \<open>subscribeToBookClub\<close> is called for both and returns at its
  already-subscribed test, so the registry, the presence channels and the number of
  channels created are what they were, and no channel subscription is among the signals.
  The data is loaded once and both views are refreshed once.
\<close>

theorem resubscribe_all_reissues_nothing:
  "map fst (subscriptions st_XY) = [''X'', ''Y'']
   \<and> subscriptions (handleConnectionRestored st_XY 500 io_ok) = subscriptions st_XY
   \<and> presenceChannels (handleConnectionRestored st_XY 500 io_ok) = presenceChannels st_XY
   \<and> channelsCreated (handleConnectionRestored st_XY 500 io_ok) = channelsCreated st_XY
   \<and> signals (handleConnectionRestored st_XY 500 io_ok)
       = signals st_XY @ [Notify ConnectionRestored, LoadData, UpdateBookClubsList, UpdateBookClubView]"
  by (simp add: io_ok_def st_XY_def st_X_timed_out_def st_X_exhausted_def initial_def registry_defs Let_def)

text \<open>
  C7 as stated fails. The subscription of \<open>X\<close> times out, which schedules a retry
  and leaves the registry entry; the application unsubscribes, with success, and the
  timer stays pending; when it fires, \<open>subscribeToBookClub\<close> finds no entry and creates
  one.
\<close>

theorem stale_timer_resubscribes_counterexample:
  "fst (unsubscribeFromBookClub st_X_timed_out io_ok ''X'')
   \<and> \<not> has_key (subscriptions (snd (unsubscribeFromBookClub st_X_timed_out io_ok ''X''))) ''X''
   \<and> timers (snd (unsubscribeFromBookClub st_X_timed_out io_ok ''X'')) = [ReconnectTimer ''X'' 1000]
   \<and> has_key (subscriptions
        (fireTimer (snd (unsubscribeFromBookClub st_X_timed_out io_ok ''X'')) 2000 io_ok 0)) ''X''"
  by (simp add: io_ok_def st_XY_def st_X_timed_out_def st_X_exhausted_def initial_def registry_defs Let_def)

text \<open>
  C5 as stated fails for the attempt count of a new subscription. After five timeouts
  of club \<open>X\<close> the application subscribes to club \<open>Y\<close>, which was not in the registry;
  the first failure of \<open>Y\<close> schedules no retry and shows the terminal notice.
\<close>

theorem shared_counter_counterexample:
  "\<not> has_key (subscriptions st_X_exhausted) ''Y''
   \<and> has_key (subscriptions (snd (subscribeToBookClub st_X_exhausted 60 io_ok ''Y''))) ''Y''
   \<and> timers (handleSubscriptionStatus ''Y'' ''TIMED_OUT''
               (snd (subscribeToBookClub st_X_exhausted 60 io_ok ''Y'')))
       = timers (snd (subscribeToBookClub st_X_exhausted 60 io_ok ''Y''))
   \<and> last (signals (handleSubscriptionStatus ''Y'' ''TIMED_OUT''
               (snd (subscribeToBookClub st_X_exhausted 60 io_ok ''Y''))))
       = Notify UnableToReconnect"
  by (simp add: io_ok_def st_XY_def st_X_timed_out_def st_X_exhausted_def initial_def registry_defs Let_def)

lemma has_key_delete: "\<not> has_key (AList.delete k m) k"
  by (simp add: has_key_def delete_notin_dom)

lemma has_key_update: "has_key (AList.update k v m) k"
  by (simp add: has_key_def dom_update)

lemma has_key_map_of: "has_key m k \<longleftrightarrow> map_of m k \<noteq> None"
  by (simp add: has_key_def map_of_eq_None_iff)

lemma setupPresenceTracking_subscriptions:
  "subscriptions (setupPresenceTracking io clubId st) = subscriptions st"
  by (simp add: setupPresenceTracking_def Let_def)

lemma cleanupPresenceTracking_frame:
  "subscriptions (cleanupPresenceTracking clubId st) = subscriptions st"
  "timers (cleanupPresenceTracking clubId st) = timers st"
  by (simp_all add: cleanupPresenceTracking_def split: option.splits)

lemma cleanupPresenceTracking_removes:
  "\<not> has_key (presenceChannels (cleanupPresenceTracking clubId st)) clubId"
proof (cases "map_of (presenceChannels st) clubId")
  case None
  then show ?thesis by (simp add: cleanupPresenceTracking_def has_key_map_of)
next
  case (Some ch)
  then show ?thesis by (simp add: cleanupPresenceTracking_def has_key_delete)
qed

lemma subscribe_registers:
  assumes "collaborative st" and "\<not> channel_throws io"
  shows "has_key (subscriptions (snd (subscribeToBookClub st now io clubId))) clubId"
  using assms
  by (simp add: subscribeToBookClub_def Let_def setupPresenceTracking_subscriptions has_key_update)

text \<open>
  C7, as amended. After a successful \<open>unsubscribeFromBookClub\<close> the registry and the
  presence channels have no entry for the club, and the pending timers are those from
  before the call: none is cancelled. A reconnection timer for that club that fires
  afterwards, with the transport configured and the channel creation not throwing,
  puts the club back into the registry.
\<close>

theorem unsubscribe_leaves_timers:
  assumes "unsubscribeFromBookClub st io clubId = (True, st')"
  shows "\<not> has_key (subscriptions st') clubId
       \<and> \<not> has_key (presenceChannels st') clubId
       \<and> timers st' = timers st
       \<and> (\<forall>i d. i < length (timers st') \<and> timers st' ! i = ReconnectTimer clubId d
                 \<and> collaborative st' \<and> \<not> channel_throws io'
             \<longrightarrow> has_key (subscriptions (fireTimer st' now io' i)) clubId)"
proof -
  from assms obtain sub where sub: "map_of (subscriptions st) clubId = Some sub"
    by (auto simp: unsubscribeFromBookClub_def split: option.splits)
  let ?st1 = "st\<lparr> signals := signals st @ [ChannelUnsubscribe (sub_channel sub)],
                  subscriptions := AList.delete clubId (subscriptions st) \<rparr>"
  from assms sub have st': "st' = cleanupPresenceTracking clubId ?st1"
    by (auto simp: unsubscribeFromBookClub_def Let_def split: if_splits)
  have a: "\<not> has_key (subscriptions st') clubId"
    by (simp add: st' cleanupPresenceTracking_frame has_key_delete)
  have b: "\<not> has_key (presenceChannels st') clubId"
    by (simp add: st' cleanupPresenceTracking_removes)
  have c: "timers st' = timers st"
    by (simp add: st' cleanupPresenceTracking_frame)
  have d: "has_key (subscriptions (fireTimer st' now io' i)) clubId"
    if "i < length (timers st')" "timers st' ! i = ReconnectTimer clubId d"
       "collaborative st'" "\<not> channel_throws io'" for i d
    using that by (simp add: fireTimer_def Let_def subscribe_registers)
  from a b c d show ?thesis by blast
qed

text \<open>The amended C7 at the timed-out subscription of club \<open>X\<close>.\<close>

theorem unsubscribe_leaves_timers_witness:
  "unsubscribeFromBookClub st_X_timed_out io_ok ''X''
     = (True, snd (unsubscribeFromBookClub st_X_timed_out io_ok ''X''))
   \<and> timers (snd (unsubscribeFromBookClub st_X_timed_out io_ok ''X'')) = timers st_X_timed_out
   \<and> timers st_X_timed_out = [ReconnectTimer ''X'' 1000]
   \<and> \<not> has_key (subscriptions (snd (unsubscribeFromBookClub st_X_timed_out io_ok ''X''))) ''X''
   \<and> has_key (subscriptions
        (fireTimer (snd (unsubscribeFromBookClub st_X_timed_out io_ok ''X'')) 2000 io_ok 0)) ''X''"
proof -
  let ?st' = "snd (unsubscribeFromBookClub st_X_timed_out io_ok ''X'')"
  have h: "unsubscribeFromBookClub st_X_timed_out io_ok ''X'' = (True, ?st')"
    by (simp add: io_ok_def st_XY_def st_X_timed_out_def st_X_exhausted_def initial_def registry_defs Let_def)
  have t: "timers st_X_timed_out = [ReconnectTimer ''X'' 1000]"
    by (simp add: io_ok_def st_XY_def st_X_timed_out_def st_X_exhausted_def initial_def registry_defs Let_def)
  have c: "collaborative ?st' \<and> \<not> channel_throws io_ok"
    by (simp add: io_ok_def st_XY_def st_X_timed_out_def st_X_exhausted_def initial_def registry_defs Let_def)
  note u = unsubscribe_leaves_timers [OF h, where now = 2000 and io' = io_ok]
  from u t have t': "timers ?st' = [ReconnectTimer ''X'' 1000]" by simp
  from u have "0 < length (timers ?st') \<and> timers ?st' ! 0 = ReconnectTimer ''X'' 1000
                 \<and> collaborative ?st' \<and> \<not> channel_throws io_ok
             \<longrightarrow> has_key (subscriptions (fireTimer ?st' 2000 io_ok 0)) ''X''"
    by blast
  with t' c have "has_key (subscriptions (fireTimer ?st' 2000 io_ok 0)) ''X''" by simp
  with u h t show ?thesis by simp
qed



lemma failure_status:
  assumes "f = ''TIMED_OUT'' \<or> f = ''CHANNEL_ERROR''"
  shows "reconnectAttempts (handleSubscriptionStatus c f st)
           = (if reconnectAttempts st \<ge> 5 then reconnectAttempts st else Suc (reconnectAttempts st))"
    and "timers (handleSubscriptionStatus c f st)
           = (if reconnectAttempts st \<ge> 5 then timers st
              else timers st @ [ReconnectTimer c (1000 * 2 ^ reconnectAttempts st)])"
    and "reconnectAttempts st \<ge> 5 \<Longrightarrow>
           last (signals (handleSubscriptionStatus c f st)) = Notify UnableToReconnect"
  using assms
  by (auto simp: handleSubscriptionStatus_def handleSubscriptionError_def attemptReconnect_def
      maxReconnectAttempts_def reconnectDelay_def setTimeout_def showRealtimeNotification_def
      emit_signal_def Let_def)

lemma deliver_statuses_snoc:
  "deliver_statuses (cfs @ [(c, f)]) st = handleSubscriptionStatus c f (deliver_statuses cfs st)"
  by (simp add: deliver_statuses_def)

lemma deliver_statuses_Nil: "deliver_statuses [] st = st"
  by (simp add: deliver_statuses_def)

text \<open>
  C5, as amended. The attempt counter is one field of the manager, 0 after
  construction. From a state where it is 0, five failures in a row (timeouts or channel
  errors, of whichever clubs) schedule retries after 1000, 2000, 4000, 8000 and 16000
  milliseconds; a sixth failure schedules none and its last signal is the terminal
  notice. The status \<open>SUBSCRIBED\<close> of any club sets the counter to 0.
\<close>

theorem backoff_policy:
  assumes zero: "reconnectAttempts st = 0"
      and fail: "\<forall>f \<in> {f1, f2, f3, f4, f5, f6}. f = ''TIMED_OUT'' \<or> f = ''CHANNEL_ERROR''"
  shows "reconnectAttempts (initial uid collab) = 0
       \<and> timers (deliver_statuses [(c1, f1), (c2, f2), (c3, f3), (c4, f4), (c5, f5)] st)
           = timers st @ [ReconnectTimer c1 1000, ReconnectTimer c2 2000, ReconnectTimer c3 4000,
                          ReconnectTimer c4 8000, ReconnectTimer c5 16000]
       \<and> timers (deliver_statuses [(c1, f1), (c2, f2), (c3, f3), (c4, f4), (c5, f5), (c6, f6)] st)
           = timers (deliver_statuses [(c1, f1), (c2, f2), (c3, f3), (c4, f4), (c5, f5)] st)
       \<and> last (signals (deliver_statuses
                 [(c1, f1), (c2, f2), (c3, f3), (c4, f4), (c5, f5), (c6, f6)] st))
           = Notify UnableToReconnect
       \<and> reconnectAttempts (handleSubscriptionStatus c ''SUBSCRIBED'' s) = 0"
proof -
  let ?s1 = "deliver_statuses [(c1, f1)] st"
  let ?s2 = "deliver_statuses [(c1, f1), (c2, f2)] st"
  let ?s3 = "deliver_statuses [(c1, f1), (c2, f2), (c3, f3)] st"
  let ?s4 = "deliver_statuses [(c1, f1), (c2, f2), (c3, f3), (c4, f4)] st"
  let ?s5 = "deliver_statuses [(c1, f1), (c2, f2), (c3, f3), (c4, f4), (c5, f5)] st"
  let ?s6 = "deliver_statuses [(c1, f1), (c2, f2), (c3, f3), (c4, f4), (c5, f5), (c6, f6)] st"
  from fail have f: "f1 = ''TIMED_OUT'' \<or> f1 = ''CHANNEL_ERROR''"
    "f2 = ''TIMED_OUT'' \<or> f2 = ''CHANNEL_ERROR''" "f3 = ''TIMED_OUT'' \<or> f3 = ''CHANNEL_ERROR''"
    "f4 = ''TIMED_OUT'' \<or> f4 = ''CHANNEL_ERROR''" "f5 = ''TIMED_OUT'' \<or> f5 = ''CHANNEL_ERROR''"
    "f6 = ''TIMED_OUT'' \<or> f6 = ''CHANNEL_ERROR''"
    by simp_all
  have e1: "?s1 = handleSubscriptionStatus c1 f1 st"
    using deliver_statuses_snoc [of "[]"] by (simp add: deliver_statuses_Nil)
  have e2: "?s2 = handleSubscriptionStatus c2 f2 ?s1"
    using deliver_statuses_snoc [of "[(c1, f1)]"] by simp
  have e3: "?s3 = handleSubscriptionStatus c3 f3 ?s2"
    using deliver_statuses_snoc [of "[(c1, f1), (c2, f2)]"] by simp
  have e4: "?s4 = handleSubscriptionStatus c4 f4 ?s3"
    using deliver_statuses_snoc [of "[(c1, f1), (c2, f2), (c3, f3)]"] by simp
  have e5: "?s5 = handleSubscriptionStatus c5 f5 ?s4"
    using deliver_statuses_snoc [of "[(c1, f1), (c2, f2), (c3, f3), (c4, f4)]"] by simp
  have e6: "?s6 = handleSubscriptionStatus c6 f6 ?s5"
    using deliver_statuses_snoc [of "[(c1, f1), (c2, f2), (c3, f3), (c4, f4), (c5, f5)]"] by simp
  have a1: "reconnectAttempts ?s1 = 1" and t1: "timers ?s1 = timers st @ [ReconnectTimer c1 1000]"
    using zero by (simp_all add: e1 failure_status [OF f(1)])
  have a2: "reconnectAttempts ?s2 = 2"
    and t2: "timers ?s2 = timers ?s1 @ [ReconnectTimer c2 2000]"
    using a1 by (simp_all add: e2 failure_status [OF f(2)])
  have a3: "reconnectAttempts ?s3 = 3"
    and t3: "timers ?s3 = timers ?s2 @ [ReconnectTimer c3 4000]"
    using a2 by (simp_all add: e3 failure_status [OF f(3)])
  have a4: "reconnectAttempts ?s4 = 4"
    and t4: "timers ?s4 = timers ?s3 @ [ReconnectTimer c4 8000]"
    using a3 by (simp_all add: e4 failure_status [OF f(4)])
  have a5: "reconnectAttempts ?s5 = 5"
    and t5: "timers ?s5 = timers ?s4 @ [ReconnectTimer c5 16000]"
    using a4 by (simp_all add: e5 failure_status [OF f(5)])
  have t6: "timers ?s6 = timers ?s5"
    and n6: "last (signals ?s6) = Notify UnableToReconnect"
    using a5 by (simp_all add: e6 failure_status [OF f(6)])
  have i: "reconnectAttempts (initial uid collab) = 0"
    by (simp add: initial_def)
  have r: "reconnectAttempts (handleSubscriptionStatus c ''SUBSCRIBED'' s) = 0"
    by (simp add: handleSubscriptionStatus_def showConnectionStatus_def emit_signal_def Let_def)
  from t1 t2 t3 t4 t5 have "timers ?s5 = timers st @ [ReconnectTimer c1 1000, ReconnectTimer c2 2000,
      ReconnectTimer c3 4000, ReconnectTimer c4 8000, ReconnectTimer c5 16000]"
    by simp
  with t6 n6 i r show ?thesis by blast
qed

text \<open>The amended C5 from the initial state, for six failures of club \<open>X\<close>.\<close>

theorem backoff_policy_witness:
  "reconnectAttempts (initial ''u1'' True) = 0
   \<and> timers (deliver_statuses [(''X'', ''TIMED_OUT''), (''X'', ''CHANNEL_ERROR''),
        (''X'', ''TIMED_OUT''), (''X'', ''TIMED_OUT''), (''X'', ''TIMED_OUT'')] (initial ''u1'' True))
       = [ReconnectTimer ''X'' 1000, ReconnectTimer ''X'' 2000, ReconnectTimer ''X'' 4000,
          ReconnectTimer ''X'' 8000, ReconnectTimer ''X'' 16000]
   \<and> last (signals (deliver_statuses [(''X'', ''TIMED_OUT''), (''X'', ''CHANNEL_ERROR''),
        (''X'', ''TIMED_OUT''), (''X'', ''TIMED_OUT''), (''X'', ''TIMED_OUT''),
        (''X'', ''TIMED_OUT'')] (initial ''u1'' True)))
       = Notify UnableToReconnect"
proof -
  have z: "reconnectAttempts (initial ''u1'' True) = 0"
    by (simp add: initial_def)
  have f: "\<forall>f \<in> {''TIMED_OUT'', ''CHANNEL_ERROR'', ''TIMED_OUT'', ''TIMED_OUT'', ''TIMED_OUT'',
                  ''TIMED_OUT''}. f = ''TIMED_OUT'' \<or> f = ''CHANNEL_ERROR''"
    by simp
  have t: "timers (initial ''u1'' True) = []"
    by (simp add: initial_def)
  show ?thesis
    using backoff_policy [OF z f, of "''u1''" True "''X''" "''X''" "''X''" "''X''" "''X''" "''X''"] t
    by simp
qed

subsection \<open>The registry is empty unless the transport is configured\<close>






























end
